theory Spec2Isabelle
  imports Main
begin

section \<open>Kubernetes client objects\<close>

text \<open>
  The objects of the Kubernetes Python client that the two charms build or mutate,
  with the fields the code reads or writes. A keyword argument the code leaves out is
  \<open>None\<close> in the client object; such fields are options here. Python dicts are maps.
\<close>

record V1ObjectMeta =
  meta_namespace :: string
  meta_name :: string
  labels :: "string \<rightharpoonup> string"

record V1ServicePort =
  port_name :: string
  port :: int
  protocol :: string
  node_port :: int

record V1ServiceSpec =
  ports :: "V1ServicePort list"
  selector :: "string \<rightharpoonup> string"
  spec_type :: string

record V1Service =
  svc_api_version :: string
  svc_metadata :: V1ObjectMeta
  svc_spec :: V1ServiceSpec

record V1ConfigMap =
  cm_api_version :: string
  cm_metadata :: V1ObjectMeta
  cm_data :: "string \<rightharpoonup> string"

record V1ConfigMapKeySelector =
  cmk_key :: string
  cmk_name :: string

record V1ResourceFieldSelector =
  container_name :: string
  resource :: string
  divisor :: string

record V1EnvVarSource =
  config_map_key_ref :: "V1ConfigMapKeySelector option"
  resource_field_ref :: "V1ResourceFieldSelector option"

record V1EnvVar =
  env_name :: string
  env_value :: "string option"
  value_from :: "V1EnvVarSource option"

record V1ResourceRequirements =
  limits :: "string \<rightharpoonup> string"
  requests :: "string \<rightharpoonup> string"

record V1VolumeMount =
  mount_path :: string
  sub_path :: string
  mount_name :: string

record V1Container =
  c_name :: string
  command :: "string list"
  image :: string
  image_pull_policy :: string
  capabilities_add :: "string list"
  volume_mounts :: "V1VolumeMount list"
  env :: "V1EnvVar list option"
  resources :: "V1ResourceRequirements option"
  stdin :: "bool option"
  tty :: "bool option"

record V1PodSpec =
  containers :: "V1Container list"
  init_containers :: "V1Container list option"
  service_account_name :: string

record V1PodTemplateSpec =
  tmpl_labels :: "string \<rightharpoonup> string"
  tmpl_spec :: V1PodSpec

record V1StatefulSetSpec =
  replicas :: int
  service_name :: string
  template :: V1PodTemplateSpec

record V1StatefulSet =
  sts_metadata :: V1ObjectMeta
  sts_spec :: V1StatefulSetSpec

text \<open>The dicts \<open>{"namespace": ..., "body": ...}\<close> that \<open>_services\<close> and
  \<open>_configmaps\<close> return and that are splatted into the API calls.\<close>

record 'b descriptor =
  d_namespace :: string
  body :: 'b

section \<open>Exceptions and the cluster\<close>

datatype exn =
    ApiException int
  | IndexError
  | TypeError
  | AttributeError
  | OSError string
  | UnicodeDecodeError
  | ConfigException

text \<open>Every call the code makes on a Kubernetes API client, with its arguments.\<close>

datatype api_call =
    ListClusterRole
  | ListNamespacedService string string
  | CreateNamespacedService string V1Service
  | PatchNamespacedService string string V1Service
  | DeleteNamespacedService string string
  | ListNamespacedConfigMap string string
  | CreateNamespacedConfigMap string V1ConfigMap
  | PatchNamespacedConfigMap string string V1ConfigMap
  | DeleteNamespacedConfigMap string string
  | ReadNamespacedStatefulSet string string
  | PatchNamespacedStatefulSet string string V1StatefulSet

fun mutating :: "api_call \<Rightarrow> bool" where
  "mutating ListClusterRole = False"
| "mutating (ListNamespacedService ns sel) = False"
| "mutating (ListNamespacedConfigMap ns sel) = False"
| "mutating (ReadNamespacedStatefulSet n ns) = False"
| "mutating c = True"

text \<open>
  The world outside the charm process: the objects of the cluster, keyed by namespace
  and name, the answer the cluster gives to the privilege probe \<open>list_cluster_role\<close>
  (\<open>None\<close>: it succeeds; \<open>Some st\<close>: it raises \<open>ApiException\<close> with status \<open>st\<close>), the
  charm's files (what \<open>glob.glob\<close> returns for a pattern, and what is at each path that
  can be opened: a text, or bytes that do not decode), and the log of the API calls
  issued so far, oldest first.
\<close>

datatype file_content = Text string | Undecodable

record world =
  cluster_services :: "string \<times> string \<rightharpoonup> V1Service"
  cluster_config_maps :: "string \<times> string \<rightharpoonup> V1ConfigMap"
  cluster_stateful_sets :: "string \<times> string \<rightharpoonup> V1StatefulSet"
  cluster_role_probe :: "int option"
  glob_files :: "string \<Rightarrow> string list"
  files :: "string \<rightharpoonup> file_content"
  calls :: "api_call list"

text \<open>A method that may raise: it returns the exception or its result, and the world
  as it is at that moment (what was done before a raise stays done).\<close>

type_synonym ('a, 's) prog = "'s \<Rightarrow> (exn + 'a) \<times> 's"

definition return :: "'a \<Rightarrow> ('a, 's) prog" where
  "return x = (\<lambda>s. (Inr x, s))"

definition raise :: "exn \<Rightarrow> ('a, 's) prog" where
  "raise e = (\<lambda>s. (Inl e, s))"

definition and_then :: "('a, 's) prog \<Rightarrow> ('a \<Rightarrow> ('b, 's) prog) \<Rightarrow> ('b, 's) prog" where
  "and_then m f = (\<lambda>s. case m s of (Inl e, s') \<Rightarrow> (Inl e, s') | (Inr x, s') \<Rightarrow> f x s')"

text \<open>A \<open>for\<close> loop over a list whose body may raise.\<close>

fun for_each :: "('a \<Rightarrow> (unit, 's) prog) \<Rightarrow> 'a list \<Rightarrow> (unit, 's) prog" where
  "for_each f [] = return ()"
| "for_each f (x # xs) = and_then (f x) (\<lambda>_. for_each f xs)"

definition log_call :: "api_call \<Rightarrow> 'a world_scheme \<Rightarrow> 'a world_scheme" where
  "log_call c w = w\<lparr>calls := calls w @ [c]\<rparr>"

text \<open>
  The API server. A list call with the field selector \<open>metadata.name=N\<close> returns the
  objects of the namespace named \<open>N\<close> (at most one); create answers 409 when the object
  exists; patch and delete answer 404 when it does not; a patch replaces the stored
  object by the body sent (the charms send whole objects).
\<close>

definition field_selector_name :: "string \<Rightarrow> string option" where
  "field_selector_name sel =
     (if take 14 sel = ''metadata.name='' then Some (drop 14 sel) else None)"

definition list_namespaced_service ::
  "string \<Rightarrow> string \<Rightarrow> (V1Service list, 'a world_scheme) prog" where
  "list_namespaced_service ns sel w =
     (let w' = log_call (ListNamespacedService ns sel) w in
      case field_selector_name sel of
        None \<Rightarrow> (Inl (ApiException 400), w')
      | Some n \<Rightarrow>
          (Inr (case cluster_services w (ns, n) of None \<Rightarrow> [] | Some x \<Rightarrow> [x]), w'))"

definition create_namespaced_service ::
  "string \<Rightarrow> V1Service \<Rightarrow> (unit, 'a world_scheme) prog" where
  "create_namespaced_service ns b w =
     (let w' = log_call (CreateNamespacedService ns b) w;
          k = (ns, meta_name (svc_metadata b)) in
      case cluster_services w k of
        Some x \<Rightarrow> (Inl (ApiException 409), w')
      | None \<Rightarrow> (Inr (), w'\<lparr>cluster_services := (cluster_services w)(k \<mapsto> b)\<rparr>))"

definition patch_namespaced_service ::
  "string \<Rightarrow> string \<Rightarrow> V1Service \<Rightarrow> (unit, 'a world_scheme) prog" where
  "patch_namespaced_service n ns b w =
     (let w' = log_call (PatchNamespacedService n ns b) w in
      case cluster_services w (ns, n) of
        None \<Rightarrow> (Inl (ApiException 404), w')
      | Some x \<Rightarrow> (Inr (), w'\<lparr>cluster_services := (cluster_services w)((ns, n) \<mapsto> b)\<rparr>))"

definition delete_namespaced_service ::
  "string \<Rightarrow> string \<Rightarrow> (unit, 'a world_scheme) prog" where
  "delete_namespaced_service ns n w =
     (let w' = log_call (DeleteNamespacedService ns n) w in
      case cluster_services w (ns, n) of
        None \<Rightarrow> (Inl (ApiException 404), w')
      | Some x \<Rightarrow> (Inr (), w'\<lparr>cluster_services := (cluster_services w)((ns, n) := None)\<rparr>))"

definition list_namespaced_config_map ::
  "string \<Rightarrow> string \<Rightarrow> (V1ConfigMap list, 'a world_scheme) prog" where
  "list_namespaced_config_map ns sel w =
     (let w' = log_call (ListNamespacedConfigMap ns sel) w in
      case field_selector_name sel of
        None \<Rightarrow> (Inl (ApiException 400), w')
      | Some n \<Rightarrow>
          (Inr (case cluster_config_maps w (ns, n) of None \<Rightarrow> [] | Some x \<Rightarrow> [x]), w'))"

definition create_namespaced_config_map ::
  "string \<Rightarrow> V1ConfigMap \<Rightarrow> (unit, 'a world_scheme) prog" where
  "create_namespaced_config_map ns b w =
     (let w' = log_call (CreateNamespacedConfigMap ns b) w;
          k = (ns, meta_name (cm_metadata b)) in
      case cluster_config_maps w k of
        Some x \<Rightarrow> (Inl (ApiException 409), w')
      | None \<Rightarrow> (Inr (), w'\<lparr>cluster_config_maps := (cluster_config_maps w)(k \<mapsto> b)\<rparr>))"

definition patch_namespaced_config_map ::
  "string \<Rightarrow> string \<Rightarrow> V1ConfigMap \<Rightarrow> (unit, 'a world_scheme) prog" where
  "patch_namespaced_config_map n ns b w =
     (let w' = log_call (PatchNamespacedConfigMap n ns b) w in
      case cluster_config_maps w (ns, n) of
        None \<Rightarrow> (Inl (ApiException 404), w')
      | Some x \<Rightarrow>
          (Inr (), w'\<lparr>cluster_config_maps := (cluster_config_maps w)((ns, n) \<mapsto> b)\<rparr>))"

definition delete_namespaced_config_map ::
  "string \<Rightarrow> string \<Rightarrow> (unit, 'a world_scheme) prog" where
  "delete_namespaced_config_map ns n w =
     (let w' = log_call (DeleteNamespacedConfigMap ns n) w in
      case cluster_config_maps w (ns, n) of
        None \<Rightarrow> (Inl (ApiException 404), w')
      | Some x \<Rightarrow>
          (Inr (), w'\<lparr>cluster_config_maps := (cluster_config_maps w)((ns, n) := None)\<rparr>))"

definition read_namespaced_stateful_set ::
  "string \<Rightarrow> string \<Rightarrow> (V1StatefulSet, 'a world_scheme) prog" where
  "read_namespaced_stateful_set n ns w =
     (let w' = log_call (ReadNamespacedStatefulSet n ns) w in
      case cluster_stateful_sets w (ns, n) of
        None \<Rightarrow> (Inl (ApiException 404), w')
      | Some x \<Rightarrow> (Inr x, w'))"

definition patch_namespaced_stateful_set ::
  "string \<Rightarrow> string \<Rightarrow> V1StatefulSet \<Rightarrow> (unit, 'a world_scheme) prog" where
  "patch_namespaced_stateful_set n ns b w =
     (let w' = log_call (PatchNamespacedStatefulSet n ns b) w in
      case cluster_stateful_sets w (ns, n) of
        None \<Rightarrow> (Inl (ApiException 404), w')
      | Some x \<Rightarrow>
          (Inr (), w'\<lparr>cluster_stateful_sets := (cluster_stateful_sets w)((ns, n) \<mapsto> b)\<rparr>))"

definition list_cluster_role :: "(unit, 'a world_scheme) prog" where
  "list_cluster_role w =
     (let w' = log_call ListClusterRole w in
      case cluster_role_probe w of
        None \<Rightarrow> (Inr (), w')
      | Some st \<Rightarrow> (Inl (ApiException st), w'))"

section \<open>resources.py of the spgwu charm: class SpgwuResources\<close>

record SpgwuResources =
  app_name :: string
  namespace :: string
  config :: "string \<rightharpoonup> string"
  script_path :: string
  runscriptPath :: string
  configPath :: string

text \<open>\<open>__init__\<close>: the application's name, the namespace and the configuration come from
  the charm; the three glob patterns are fixed.\<close>

definition SpgwuResources_init ::
  "string \<Rightarrow> string \<Rightarrow> (string \<rightharpoonup> string) \<Rightarrow> SpgwuResources" where
  "SpgwuResources_init app ns cfg =
     \<lparr>app_name = app, namespace = ns, config = cfg,
      script_path = ''src/files/Script/*.*'',
      runscriptPath = ''src/files/*.*'',
      configPath = ''src/files/Config/*.*''\<rparr>"

text \<open>The property \<open>_services\<close>.\<close>

definition services :: "SpgwuResources \<Rightarrow> V1Service descriptor list" where
  "services r =
     [\<lparr>d_namespace = namespace r,
       body = \<lparr>svc_api_version = ''v1'',
               svc_metadata = \<lparr>meta_namespace = namespace r,
                               meta_name = ''spgwu-dp-comm'',
                               labels = [''app.kubernetes.io/name'' \<mapsto> app_name r]\<rparr>,
               svc_spec = \<lparr>ports = [\<lparr>port_name = ''dp-comm'', port = 8085,
                                     protocol = ''UDP'', node_port = 30020\<rparr>],
                           selector = [''app.kubernetes.io/name'' \<mapsto> app_name r],
                           spec_type = ''NodePort''\<rparr>\<rparr>\<rparr>]"

text \<open>\<open>loadfile\<close>: \<open>open\<close> raises \<open>OSError\<close> on a path that cannot be opened, and \<open>read\<close>,
  the file being opened in text mode, raises \<open>UnicodeDecodeError\<close> on bytes that do not
  decode.\<close>

definition loadfile :: "'a world_scheme \<Rightarrow> string \<Rightarrow> exn + string" where
  "loadfile w file_name =
     (case files w file_name of
        None \<Rightarrow> Inl (OSError file_name)
      | Some Undecodable \<Rightarrow> Inl UnicodeDecodeError
      | Some (Text d) \<Rightarrow> Inr d)"

text \<open>\<open>os.path.basename\<close>: what follows the last slash.\<close>

definition basename :: "string \<Rightarrow> string" where
  "basename p = rev (takeWhile (\<lambda>c. c \<noteq> CHR ''/'') (rev p))"

text \<open>The loop of \<open>_get_config_data\<close> over the paths still to read, \<open>dicts\<close> being the
  dictionary built so far.\<close>

fun get_config_data_loop ::
  "'a world_scheme \<Rightarrow> string list \<Rightarrow> (string \<rightharpoonup> string) \<Rightarrow> exn + (string \<rightharpoonup> string)" where
  "get_config_data_loop w [] dicts = Inr dicts"
| "get_config_data_loop w (file_path # rest) dicts =
     (case loadfile w file_path of
        Inl e \<Rightarrow> Inl e
      | Inr file_data \<Rightarrow>
          get_config_data_loop w rest (dicts(basename file_path \<mapsto> file_data)))"

definition get_config_data :: "'a world_scheme \<Rightarrow> string \<Rightarrow> exn + (string \<rightharpoonup> string)" where
  "get_config_data w files_path = get_config_data_loop w (glob_files w files_path) Map.empty"

text \<open>The property \<open>_configmaps\<close>: the three bundles are loaded, in this order, and one
  ConfigMap is returned.\<close>

definition configmaps ::
  "SpgwuResources \<Rightarrow> 'a world_scheme \<Rightarrow> exn + V1ConfigMap descriptor list" where
  "configmaps r w =
     (case get_config_data w (script_path r) of
        Inl e \<Rightarrow> Inl e
      | Inr dict_script \<Rightarrow>
     (case get_config_data w (configPath r) of
        Inl e \<Rightarrow> Inl e
      | Inr dict_config \<Rightarrow>
     (case get_config_data w (runscriptPath r) of
        Inl e \<Rightarrow> Inl e
      | Inr dict_runscript \<Rightarrow>
          Inr [\<lparr>d_namespace = namespace r,
                body = \<lparr>cm_api_version = ''v1'',
                        cm_metadata = \<lparr>meta_namespace = namespace r,
                                       meta_name = ''spgwu'',
                                       labels = [''app.kubernetes.io/name'' \<mapsto> app_name r,
                                                 ''app'' \<mapsto> app_name r]\<rparr>,
                        cm_data = dict_script\<rparr>\<rparr>])))"

definition lift :: "('s \<Rightarrow> exn + 'a) \<Rightarrow> ('a, 's) prog" where
  "lift f = (\<lambda>s. (f s, s))"

text \<open>The bodies of the two loops of \<open>apply\<close>.\<close>

definition apply_service :: "V1Service descriptor \<Rightarrow> (unit, 'a world_scheme) prog" where
  "apply_service service =
     and_then (list_namespaced_service (d_namespace service)
                 (''metadata.name='' @ meta_name (svc_metadata (body service))))
       (\<lambda>items.
          if items = [] then create_namespaced_service (d_namespace service) (body service)
          else patch_namespaced_service (meta_name (svc_metadata (body service)))
                 (d_namespace service) (body service))"

definition apply_configmap :: "V1ConfigMap descriptor \<Rightarrow> (unit, 'a world_scheme) prog" where
  "apply_configmap cm =
     and_then (list_namespaced_config_map (d_namespace cm)
                 (''metadata.name='' @ meta_name (cm_metadata (body cm))))
       (\<lambda>items.
          if items = [] then create_namespaced_config_map (d_namespace cm) (body cm)
          else patch_namespaced_config_map (meta_name (cm_metadata (body cm)))
                 (d_namespace cm) (body cm))"

text \<open>\<open>apply\<close>: the services first; \<open>_configmaps\<close> is evaluated, and the files read, when
  the second loop starts.\<close>

definition SpgwuResources_apply :: "SpgwuResources \<Rightarrow> (unit, 'a world_scheme) prog" where
  "SpgwuResources_apply r =
     and_then (for_each apply_service (services r))
       (\<lambda>_. and_then (lift (configmaps r)) (for_each apply_configmap))"

text \<open>\<open>delete\<close>: no exception is caught.\<close>

definition delete_service :: "V1Service descriptor \<Rightarrow> (unit, 'a world_scheme) prog" where
  "delete_service service =
     delete_namespaced_service (d_namespace service) (meta_name (svc_metadata (body service)))"

definition delete_configmap :: "V1ConfigMap descriptor \<Rightarrow> (unit, 'a world_scheme) prog" where
  "delete_configmap cm =
     delete_namespaced_config_map (d_namespace cm) (meta_name (cm_metadata (body cm)))"

definition SpgwuResources_delete :: "SpgwuResources \<Rightarrow> (unit, 'a world_scheme) prog" where
  "SpgwuResources_delete r =
     and_then (for_each delete_service (services r))
       (\<lambda>_. and_then (lift (configmaps r)) (for_each delete_configmap))"

text \<open>The properties \<open>add_spgwu_init_containers\<close> and \<open>spgwu_add_env\<close>. A container
  built by the charm has no env, resources, stdin or tty.\<close>

definition add_spgwu_init_containers :: "V1Container list" where
  "add_spgwu_init_containers =
     [\<lparr>c_name = ''spgwu-iptables-init'',
       command = [''/opt/dp/scripts/setup-af-iface.sh''],
       image = ''docker.io/omecproject/pod-init:1.0.0'',
       image_pull_policy = ''IfNotPresent'',
       capabilities_add = [''IPC_LOCK'', ''NET_ADMIN''],
       volume_mounts = [\<lparr>mount_path = ''/opt/dp/scripts/setup-af-iface.sh'',
                          sub_path = ''setup-af-iface.sh'',
                          mount_name = ''dp-script''\<rparr>],
       env = None, resources = None, stdin = None, tty = None\<rparr>]"

definition spgwu_add_env :: "V1EnvVar list" where
  "spgwu_add_env =
     [\<lparr>env_name = ''MEM_LIMIT'', env_value = None,
       value_from = Some \<lparr>config_map_key_ref = None,
                          resource_field_ref =
                            Some \<lparr>container_name = ''spgwu'',
                                  resource = ''limits.memory'',
                                  divisor = ''1Mi''\<rparr>\<rparr>\<rparr>]"

text \<open>
  \<open>add_container_resource_limit\<close> is declared a property although it takes the argument
  \<open>containers\<close>: reading the attribute calls the method with the object alone, and the
  call raises \<open>TypeError\<close> before the body runs.
\<close>

definition add_container_resource_limit :: "SpgwuResources \<Rightarrow> exn + unit" where
  "add_container_resource_limit r = Inl TypeError"

text \<open>
  The \<open>while\<close> loop of its body, run for at most \<open>k\<close> turns: whether the loop has been
  left, and the containers as they are then. \<open>length\<close> is \<open>len(containers)\<close>, which no
  turn changes, and no turn changes \<open>itr\<close>.
\<close>

fun add_container_resource_limit_loop ::
  "nat \<Rightarrow> nat \<Rightarrow> V1Container list \<Rightarrow> bool \<times> V1Container list" where
  "add_container_resource_limit_loop 0 itr cs = (\<not> itr < length cs, cs)"
| "add_container_resource_limit_loop (Suc k) itr cs =
     (if itr < length cs
      then add_container_resource_limit_loop k itr
             (cs[itr := (cs ! itr)
                \<lparr>resources :=
                   Some \<lparr>limits = [''cpu'' \<mapsto> ''0.2'', ''memory'' \<mapsto> ''200Mi''],
                         requests = [''cpu'' \<mapsto> ''0.2'', ''memory'' \<mapsto> ''200Mi'']\<rparr>\<rparr>])
      else (True, cs))"

text \<open>The body of the method, called on the containers \<open>cs\<close> (as the function under the property
  can be): \<open>itr\<close> starts at 1.\<close>

definition add_container_resource_limit_body ::
  "nat \<Rightarrow> V1Container list \<Rightarrow> bool \<times> V1Container list" where
  "add_container_resource_limit_body k cs =
     add_container_resource_limit_loop k 1 cs"

section \<open>charm.py of the spgwc charm: class SpgwcCharm\<close>

datatype status = ActiveStatus | BlockedStatus string | MaintenanceStatus string

text \<open>
  The charm object together with the world it runs in. \<open>charm_app\<close> is \<open>self.app.name\<close>
  and \<open>charm_namespace\<close> what the property \<open>namespace\<close> reads from the service account's
  namespace file. \<open>authed\<close> is the attribute \<open>_authed\<close>, \<open>False\<close> in the class.
  \<open>deferred\<close> records that \<open>event.defer()\<close> was called on the event being handled.
  \<open>incluster_config\<close> is the outcome of the two steps of \<open>_k8s_auth\<close> that come before
  the probe (copying the \<open>KUBERNETES_SERVICE\<close> variables of \<open>/proc/1/environ\<close> into the
  environment, and \<open>load_incluster_config\<close>): the exception they raise, if any.
\<close>

record SpgwcCharm = world +
  charm_app :: string
  charm_namespace :: string
  authed :: bool
  unit_status :: status
  deferred :: bool
  incluster_config :: "exn option"

text \<open>
  The class \<open>SpgwcResources\<close> of the spgwc charm's own \<open>resources.py\<close> is not
  modelled: what \<open>charm.py\<close> uses of it, two properties and two methods, is a parameter
  of the handlers.
\<close>

record SpgwcResources =
  spgwc_add_env :: "V1EnvVar list"
  add_spgwc_init_containers :: "V1Container list"
  resources_apply :: "(unit, SpgwcCharm) prog"
  resources_delete :: "(unit, SpgwcCharm) prog"

definition set_status :: "status \<Rightarrow> (unit, SpgwcCharm) prog" where
  "set_status st self = (Inr (), self\<lparr>unit_status := st\<rparr>)"

definition event_defer :: "(unit, SpgwcCharm) prog" where
  "event_defer self = (Inr (), self\<lparr>deferred := True\<rparr>)"

text \<open>\<open>_k8s_auth\<close>: only the status 403 of the probe is caught.\<close>

definition k8s_auth :: "(bool, SpgwcCharm) prog" where
  "k8s_auth self =
     (if authed self then (Inr True, self)
      else case incluster_config self of
        Some e \<Rightarrow> (Inl e, self)
      | None \<Rightarrow>
          (case list_cluster_role self of
             (Inl (ApiException st), self') \<Rightarrow>
               if st = 403
               then (Inr False,
                     self'\<lparr>unit_status :=
                       BlockedStatus ''Run juju trust on this application to continue''\<rparr>)
               else (Inl (ApiException st), self')
           | (Inl e, self') \<Rightarrow> (Inl e, self')
           | (Inr u, self') \<Rightarrow> (Inr True, self'\<lparr>authed := True\<rparr>)))"

text \<open>The env var that \<open>_statefulset_patched\<close> expects.\<close>

definition expected :: V1EnvVar where
  "expected =
     \<lparr>env_name = ''MME_ADDR'', env_value = None,
      value_from = Some \<lparr>config_map_key_ref = Some \<lparr>cmk_key = ''IP'', cmk_name = ''mme-ip''\<rparr>,
                         resource_field_ref = None\<rparr>\<rparr>"

definition pod_containers :: "V1StatefulSet \<Rightarrow> V1Container list" where
  "pod_containers s = containers (tmpl_spec (template (sts_spec s)))"

text \<open>The property \<open>_statefulset_patched\<close>: \<open>containers[1]\<close> raises \<open>IndexError\<close> on a list
  of fewer than two, and \<open>in\<close> raises \<open>TypeError\<close> on an env that is \<open>None\<close>.\<close>

definition statefulset_patched :: "(bool, SpgwcCharm) prog" where
  "statefulset_patched self =
     and_then (read_namespaced_stateful_set (charm_app self) (charm_namespace self))
       (\<lambda>s. if length (pod_containers s) \<le> 1 then raise IndexError
             else case env (pod_containers s ! 1) of
                    None \<Rightarrow> raise TypeError
                  | Some es \<Rightarrow> return (expected \<in> set es))
       self"

text \<open>The \<open>V1ResourceRequirements\<close> that \<open>_patch_stateful_set\<close> assigns.\<close>

definition patch_resource_requirements :: V1ResourceRequirements where
  "patch_resource_requirements =
     \<lparr>limits = [''cpu'' \<mapsto> ''2'', ''memory'' \<mapsto> ''2Gi''],
      requests = [''cpu'' \<mapsto> ''2'', ''memory'' \<mapsto> ''2Gi'']\<rparr>"

definition set_pod_spec :: "V1PodSpec \<Rightarrow> V1StatefulSet \<Rightarrow> V1StatefulSet" where
  "set_pod_spec p s =
     s\<lparr>sts_spec := (sts_spec s)\<lparr>template := (template (sts_spec s))\<lparr>tmpl_spec := p\<rparr>\<rparr>\<rparr>"

text \<open>
  What \<open>_patch_stateful_set\<close> does to the object it has read, statement by statement:
  \<open>containers[1]\<close> raises \<open>IndexError\<close> on fewer than two containers, and \<open>extend\<close> on an
  env or on init containers that are \<open>None\<close> raises \<open>AttributeError\<close>.
\<close>

definition patched_object :: "SpgwcResources \<Rightarrow> V1StatefulSet \<Rightarrow> exn + V1StatefulSet" where
  "patched_object r s =
     (let p = tmpl_spec (template (sts_spec s)); cs = containers p in
      if length cs \<le> 1 then Inl IndexError
      else case env (cs ! 1) of
        None \<Rightarrow> Inl AttributeError
      | Some es \<Rightarrow>
          (case init_containers p of
             None \<Rightarrow> Inl AttributeError
           | Some ics \<Rightarrow>
               Inr (set_pod_spec
                      (p\<lparr>containers :=
                           cs[1 := (cs ! 1)\<lparr>env := Some (es @ spgwc_add_env r),
                                             resources := Some patch_resource_requirements,
                                             stdin := Some True,
                                             tty := Some True\<rparr>],
                         init_containers := Some (ics @ add_spgwc_init_containers r)\<rparr>)
                      s)))"

definition patch_stateful_set :: "SpgwcResources \<Rightarrow> (unit, SpgwcCharm) prog" where
  "patch_stateful_set r self =
     and_then
       (set_status (MaintenanceStatus ''patching StatefulSet for additional k8s permissions''))
       (\<lambda>_. and_then (read_namespaced_stateful_set (charm_app self) (charm_namespace self))
          (\<lambda>s. and_then (lift (\<lambda>_. patched_object r s))
             (\<lambda>s'. patch_namespaced_stateful_set (charm_app self) (charm_namespace self) s')))
       self"

definition on_config_changed :: "SpgwcResources \<Rightarrow> (unit, SpgwcCharm) prog" where
  "on_config_changed r =
     and_then k8s_auth
       (\<lambda>ok. if \<not> ok then event_defer
              else and_then statefulset_patched
                (\<lambda>patched.
                   and_then
                     (if \<not> patched
                      then and_then (patch_stateful_set r)
                             (\<lambda>_. set_status (MaintenanceStatus ''waiting for changes to apply''))
                      else return ())
                     (\<lambda>_. set_status ActiveStatus)))"

definition on_install :: "SpgwcResources \<Rightarrow> (unit, SpgwcCharm) prog" where
  "on_install r =
     and_then k8s_auth
       (\<lambda>ok. if \<not> ok then event_defer
              else and_then (set_status (MaintenanceStatus ''creating k8s resources''))
                     (\<lambda>_. resources_apply r))"

definition on_remove :: "SpgwcResources \<Rightarrow> (unit, SpgwcCharm) prog" where
  "on_remove r =
     and_then k8s_auth (\<lambda>ok. if \<not> ok then event_defer else resources_delete r)"

section \<open>Concrete inputs\<close>

text \<open>A spgwu charm in namespace \<open>omec\<close> with an empty configuration.\<close>

definition spgwu_res :: SpgwuResources where
  "spgwu_res = SpgwuResources_init ''spgwu'' ''omec'' Map.empty"

text \<open>An empty cluster seen from a charm without any file.\<close>

definition bare_world :: world where
  "bare_world =
     \<lparr>cluster_services = Map.empty, cluster_config_maps = Map.empty,
      cluster_stateful_sets = Map.empty, cluster_role_probe = None,
      glob_files = (\<lambda>pat. []), files = Map.empty, calls = []\<rparr>"

text \<open>The same cluster seen from a charm that ships one file of each bundle.\<close>

definition charm_files :: "string \<Rightarrow> string list" where
  "charm_files pat =
     (if pat = ''src/files/Script/*.*'' then [''src/files/Script/setup-af-iface.sh'']
      else if pat = ''src/files/Config/*.*'' then [''src/files/Config/dp.cfg'']
      else if pat = ''src/files/*.*'' then [''src/files/run.sh'']
      else [])"

definition files_world :: world where
  "files_world =
     bare_world\<lparr>glob_files := charm_files,
                files := [''src/files/Script/setup-af-iface.sh'' \<mapsto> Text ''ip link'',
                          ''src/files/Config/dp.cfg'' \<mapsto> Text ''mtu=1500'',
                          ''src/files/run.sh'' \<mapsto> Text ''exec ngic_dataplane'']\<rparr>"

text \<open>A cluster in which the Service exists and the ConfigMap does not.\<close>

definition service_only_world :: world where
  "service_only_world =
     files_world\<lparr>cluster_services :=
       [(''omec'', ''spgwu-dp-comm'') \<mapsto> body (hd (services spgwu_res))]\<rparr>"

text \<open>A workload container, a StatefulSet of two containers (the charm's and the
  workload's) and one of a single container.\<close>

definition plain_container :: "string \<Rightarrow> V1Container" where
  "plain_container n =
     \<lparr>c_name = n, command = [], image = ''omecproject/'' @ n, image_pull_policy = ''Always'',
      capabilities_add = [], volume_mounts = [], env = Some [], resources = None,
      stdin = None, tty = None\<rparr>"

definition stateful_set_of :: "V1Container list \<Rightarrow> V1StatefulSet" where
  "stateful_set_of cs =
     \<lparr>sts_metadata = \<lparr>meta_namespace = ''omec'', meta_name = ''spgwc'',
                      labels = [''app.kubernetes.io/name'' \<mapsto> ''spgwc'']\<rparr>,
      sts_spec = \<lparr>replicas = 1, service_name = ''spgwc-endpoints'',
                  template = \<lparr>tmpl_labels = [''app.kubernetes.io/name'' \<mapsto> ''spgwc''],
                              tmpl_spec = \<lparr>containers = cs, init_containers = Some [],
                                           service_account_name = ''spgwc''\<rparr>\<rparr>\<rparr>\<rparr>"

definition two_containers :: V1StatefulSet where
  "two_containers = stateful_set_of [plain_container ''charm'', plain_container ''spgwc'']"

definition one_container :: V1StatefulSet where
  "one_container = stateful_set_of [plain_container ''spgwc'']"

text \<open>A freshly started spgwc charm in front of a cluster holding the StatefulSet \<open>s\<close>
  and answering the privilege probe by \<open>probe\<close>.\<close>

definition fresh_charm :: "V1StatefulSet \<Rightarrow> int option \<Rightarrow> SpgwcCharm" where
  "fresh_charm s probe =
     \<lparr>cluster_services = Map.empty, cluster_config_maps = Map.empty,
      cluster_stateful_sets = [(''omec'', ''spgwc'') \<mapsto> s], cluster_role_probe = probe,
      glob_files = (\<lambda>pat. []), files = Map.empty, calls = [],
      charm_app = ''spgwc'', charm_namespace = ''omec'', authed = False,
      unit_status = MaintenanceStatus ''installing agent'', deferred = False,
      incluster_config = None\<rparr>"

text \<open>Resources of the spgwc charm whose env patch is the expected variable and whose
  \<open>apply\<close> and \<open>delete\<close> do nothing.\<close>

definition sample_resources :: SpgwcResources where
  "sample_resources =
     \<lparr>spgwc_add_env = [expected], add_spgwc_init_containers = add_spgwu_init_containers,
      resources_apply = return (), resources_delete = return ()\<rparr>"

text \<open>A StatefulSet of two containers whose second container already has the expected
  variable.\<close>

definition already_patched :: V1StatefulSet where
  "already_patched =
     stateful_set_of [plain_container ''charm'', (plain_container ''spgwc'')\<lparr>env := Some [expected]\<rparr>]"

text \<open>A cluster in which both the Service and the ConfigMap exist.\<close>

definition deployed_world :: world where
  "deployed_world =
     service_only_world\<lparr>cluster_config_maps :=
       [(''omec'', ''spgwu'') \<mapsto>
          \<lparr>cm_api_version = ''v1'',
           cm_metadata = \<lparr>meta_namespace = ''omec'', meta_name = ''spgwu'',
                          labels = [''app.kubernetes.io/name'' \<mapsto> ''spgwu'',
                                    ''app'' \<mapsto> ''spgwu'']\<rparr>,
           cm_data = [''setup-af-iface.sh'' \<mapsto> ''ip link'']\<rparr>]\<rparr>"

section \<open>Properties\<close>

lemmas prog_defs = and_then_def return_def raise_def lift_def set_status_def event_defer_def

subsection \<open>The privilege probe\<close>

lemma k8s_auth_authed: "authed self \<Longrightarrow> k8s_auth self = (Inr True, self)"
  by (simp add: k8s_auth_def)

lemma k8s_auth_True_authed: "k8s_auth self = (Inr True, self') \<Longrightarrow> authed self'"
  by (auto simp: k8s_auth_def list_cluster_role_def log_call_def Let_def
      split: if_splits option.splits exn.splits sum.splits prod.splits)

lemma k8s_auth_probe_ok:
  "\<not> authed self \<Longrightarrow> incluster_config self = None \<Longrightarrow> cluster_role_probe self = None \<Longrightarrow>
   k8s_auth self = (Inr True, self\<lparr>calls := calls self @ [ListClusterRole], authed := True\<rparr>)"
  by (simp add: k8s_auth_def list_cluster_role_def log_call_def)

text \<open>
  C9. Once \<open>_k8s_auth\<close> has returned \<open>True\<close>, a later call on the same charm object
  returns \<open>True\<close> and leaves everything as it is, the log of API calls included: no
  probe is issued, whatever the cluster would answer to it by then, and whatever else
  has changed, as long as the flag is the one the first call left.
\<close>

theorem k8s_auth_memoized:
  assumes "k8s_auth self = (Inr True, self')" and "authed later = authed self'"
  shows "k8s_auth later = (Inr True, later)"
  using assms k8s_auth_True_authed k8s_auth_authed by simp

theorem k8s_auth_memoized_witness:
  "k8s_auth (fresh_charm two_containers None)
     = (Inr True, (fresh_charm two_containers None)\<lparr>calls := [ListClusterRole], authed := True\<rparr>)
   \<and> k8s_auth ((fresh_charm two_containers None)
        \<lparr>calls := [ListClusterRole], authed := True, cluster_role_probe := Some 403\<rparr>)
     = (Inr True, (fresh_charm two_containers None)
        \<lparr>calls := [ListClusterRole], authed := True, cluster_role_probe := Some 403\<rparr>)"
proof -
  have first: "k8s_auth (fresh_charm two_containers None)
     = (Inr True, (fresh_charm two_containers None)\<lparr>calls := [ListClusterRole], authed := True\<rparr>)"
    by (simp add: k8s_auth_def fresh_charm_def list_cluster_role_def log_call_def)
  show ?thesis
    using first k8s_auth_memoized [OF first, of "(fresh_charm two_containers None)
        \<lparr>calls := [ListClusterRole], authed := True, cluster_role_probe := Some 403\<rparr>"]
    by simp
qed

text \<open>
  C5. When the charm has not authenticated yet and the probe \<open>list_cluster_role\<close> raises
  an \<open>ApiException\<close> of status \<open>st\<close>: with \<open>st = 403\<close> the install and the config-changed
  handlers return normally having deferred the event and set the blocked status, and the
  only API call of the pass is the probe; with any other status the exception leaves the
  handler as it is, after that single probe, with the event not deferred and the status
  untouched. In both cases no mutating call is issued.
\<close>

theorem auth_403_defers:
  assumes "\<not> authed self" and "incluster_config self = None"
    and "cluster_role_probe self = Some st"
  shows "on_install r self =
           (if st = 403
            then (Inr (), self\<lparr>calls := calls self @ [ListClusterRole],
                    unit_status := BlockedStatus ''Run juju trust on this application to continue'',
                    deferred := True\<rparr>)
            else (Inl (ApiException st), self\<lparr>calls := calls self @ [ListClusterRole]\<rparr>))
       \<and> on_config_changed r self =
           (if st = 403
            then (Inr (), self\<lparr>calls := calls self @ [ListClusterRole],
                    unit_status := BlockedStatus ''Run juju trust on this application to continue'',
                    deferred := True\<rparr>)
            else (Inl (ApiException st), self\<lparr>calls := calls self @ [ListClusterRole]\<rparr>))
       \<and> filter mutating (calls (snd (on_install r self))) = filter mutating (calls self)
       \<and> filter mutating (calls (snd (on_config_changed r self))) = filter mutating (calls self)"
  using assms
  by (simp add: on_install_def on_config_changed_def k8s_auth_def list_cluster_role_def
      log_call_def prog_defs)

theorem auth_403_defers_witness:
  "on_install sample_resources (fresh_charm two_containers (Some 403)) =
     (Inr (), (fresh_charm two_containers (Some 403))
        \<lparr>calls := [ListClusterRole],
          unit_status := BlockedStatus ''Run juju trust on this application to continue'',
          deferred := True\<rparr>)
   \<and> on_config_changed sample_resources (fresh_charm two_containers (Some 500)) =
     (Inl (ApiException 500), (fresh_charm two_containers (Some 500))\<lparr>calls := [ListClusterRole]\<rparr>)"
  using auth_403_defers [of "fresh_charm two_containers (Some 403)" 403 sample_resources]
    auth_403_defers [of "fresh_charm two_containers (Some 500)" 500 sample_resources]
  by (simp add: fresh_charm_def)

lemma statefulset_patched_eq:
  "statefulset_patched self =
     (case cluster_stateful_sets self (charm_namespace self, charm_app self) of
        None \<Rightarrow> Inl (ApiException 404)
      | Some s \<Rightarrow>
          if length (pod_containers s) \<le> 1 then Inl IndexError
          else (case env (pod_containers s ! 1) of
                  None \<Rightarrow> Inl TypeError
                | Some es \<Rightarrow> Inr (expected \<in> set es)),
      self\<lparr>calls := calls self
         @ [ReadNamespacedStatefulSet (charm_app self) (charm_namespace self)]\<rparr>)"
  by (simp add: statefulset_patched_def read_namespaced_stateful_set_def log_call_def
      prog_defs split: option.splits)

lemma patch_stateful_set_eq:
  "patch_stateful_set r self =
     (let self1 = self\<lparr>unit_status :=
                    MaintenanceStatus ''patching StatefulSet for additional k8s permissions'',
                  calls := calls self
                    @ [ReadNamespacedStatefulSet (charm_app self) (charm_namespace self)]\<rparr>
      in case cluster_stateful_sets self (charm_namespace self, charm_app self) of
        None \<Rightarrow> (Inl (ApiException 404), self1)
      | Some s \<Rightarrow>
          (case patched_object r s of
             Inl e \<Rightarrow> (Inl e, self1)
           | Inr s' \<Rightarrow>
               (Inr (), self1\<lparr>calls := calls self1
                    @ [PatchNamespacedStatefulSet (charm_app self) (charm_namespace self) s'],
                  cluster_stateful_sets := (cluster_stateful_sets self)
                    ((charm_namespace self, charm_app self) \<mapsto> s')\<rparr>)))"
  by (simp add: patch_stateful_set_def read_namespaced_stateful_set_def
      patch_namespaced_stateful_set_def log_call_def
      prog_defs Let_def split: option.splits sum.splits)

lemma patched_object_short: "length (pod_containers s) < 2 \<Longrightarrow> patched_object r s = Inl IndexError"
  by (simp add: patched_object_def pod_containers_def Let_def)

lemma patched_object_first:
  "patched_object r s = Inr s' \<Longrightarrow> pod_containers s' ! 0 = pod_containers s ! 0"
  by (auto simp: patched_object_def pod_containers_def set_pod_spec_def Let_def
      split: if_splits option.splits)


lemma patched_object_ok:
  assumes "2 \<le> length (pod_containers s)"
    and "env (pod_containers s ! 1) = Some es"
    and "init_containers (tmpl_spec (template (sts_spec s))) = Some ics"
  shows "patched_object r s =
     Inr (set_pod_spec
            ((tmpl_spec (template (sts_spec s)))
               \<lparr>containers := (pod_containers s)
                    [1 := (pod_containers s ! 1)
                            \<lparr>env := Some (es @ spgwc_add_env r),
                              resources := Some patch_resource_requirements,
                              stdin := Some True, tty := Some True\<rparr>],
                 init_containers := Some (ics @ add_spgwc_init_containers r)\<rparr>) s)"
  using assms by (simp add: patched_object_def pod_containers_def Let_def)


lemma on_config_changed_authed:
  assumes "authed self \<or> (incluster_config self = None \<and> cluster_role_probe self = None)"
  shows "on_config_changed r self =
    (let self0 = (if authed self then self
                  else self\<lparr>calls := calls self @ [ListClusterRole], authed := True\<rparr>) in
     case statefulset_patched self0 of
       (Inl e, s1) \<Rightarrow> (Inl e, s1)
     | (Inr p, s1) \<Rightarrow>
         if p then (Inr (), s1\<lparr>unit_status := ActiveStatus\<rparr>)
         else (case patch_stateful_set r s1 of
                 (Inl e, s2) \<Rightarrow> (Inl e, s2)
               | (Inr u, s2) \<Rightarrow> (Inr (), s2\<lparr>unit_status := ActiveStatus\<rparr>)))"
proof (cases "authed self")
  case True
  then show ?thesis
    by (simp add: on_config_changed_def k8s_auth_authed prog_defs
        split: prod.splits sum.splits)
next
  case False
  with assms have "k8s_auth self =
      (Inr True, self\<lparr>calls := calls self @ [ListClusterRole], authed := True\<rparr>)"
    by (simp add: k8s_auth_probe_ok)
  with False show ?thesis
    by (simp add: on_config_changed_def prog_defs split: prod.splits sum.splits)
qed

lemma on_config_changed_patched:
  assumes "authed self \<or> (incluster_config self = None \<and> cluster_role_probe self = None)"
    and "cluster_stateful_sets self (charm_namespace self, charm_app self) = Some s"
    and "2 \<le> length (pod_containers s)"
    and "env (pod_containers s ! 1) = Some es"
    and "expected \<in> set es"
  shows "on_config_changed r self =
     (Inr (),
      (if authed self then self
       else self\<lparr>calls := calls self @ [ListClusterRole], authed := True\<rparr>)
      \<lparr>calls := (if authed self then calls self else calls self @ [ListClusterRole])
           @ [ReadNamespacedStatefulSet (charm_app self) (charm_namespace self)],
        unit_status := ActiveStatus\<rparr>)"
  using assms(2-5)
  by (simp add: on_config_changed_authed [OF assms(1)] statefulset_patched_eq Let_def)

lemma patched_object_env:
  assumes "patched_object r s = Inr s'" and "env (pod_containers s ! 1) = Some es"
  shows "env (pod_containers s' ! 1) = Some (es @ spgwc_add_env r)
       \<and> length (pod_containers s') = length (pod_containers s)"
  using assms
  by (auto simp: patched_object_def pod_containers_def set_pod_spec_def Let_def
      split: if_splits option.splits)

lemma on_config_changed_unpatched:
  assumes "authed self \<or> (incluster_config self = None \<and> cluster_role_probe self = None)"
    and "cluster_stateful_sets self (charm_namespace self, charm_app self) = Some s"
    and "2 \<le> length (pod_containers s)"
    and "env (pod_containers s ! 1) = Some es"
    and "expected \<notin> set es"
    and "patched_object r s = Inr s'"
  shows "on_config_changed r self =
     (Inr (),
      (if authed self then self
       else self\<lparr>calls := calls self @ [ListClusterRole], authed := True\<rparr>)
      \<lparr>calls := (if authed self then calls self else calls self @ [ListClusterRole])
           @ [ReadNamespacedStatefulSet (charm_app self) (charm_namespace self),
              ReadNamespacedStatefulSet (charm_app self) (charm_namespace self),
              PatchNamespacedStatefulSet (charm_app self) (charm_namespace self) s'],
        unit_status := ActiveStatus,
        cluster_stateful_sets := (cluster_stateful_sets self)
           ((charm_namespace self, charm_app self) \<mapsto> s')\<rparr>)"
  using assms(2-6)
  by (simp add: on_config_changed_authed [OF assms(1)] statefulset_patched_eq
      patch_stateful_set_eq Let_def)


subsection \<open>The StatefulSet patch\<close>

text \<open>
  C2. For a charm that is or can be authenticated, on a StatefulSet of at least two
  containers whose container 1 has the env list \<open>es\<close>. If the expected variable
  (\<open>MME_ADDR\<close> from key \<open>IP\<close> of config map \<open>mme-ip\<close>) is in \<open>es\<close>, the check returns
  \<open>True\<close> and the config-changed handler issues no mutating call and leaves the stored
  StatefulSets as they are. If it is not, and the env patch of the resources contains
  it, then of two config-changed passes in a row the first issues exactly one mutating
  call, the patch, and the second finds the check \<open>True\<close> and issues none.
\<close>

theorem statefulset_patched_at_most_once:
  assumes auth: "authed self \<or> (incluster_config self = None \<and> cluster_role_probe self = None)"
    and sts: "cluster_stateful_sets self (charm_namespace self, charm_app self) = Some s"
    and len: "2 \<le> length (pod_containers s)"
    and env: "env (pod_containers s ! 1) = Some es"
  shows "(expected \<in> set es \<longrightarrow>
            fst (statefulset_patched self) = Inr True
          \<and> fst (on_config_changed r self) = Inr ()
          \<and> filter mutating (calls (snd (on_config_changed r self))) = filter mutating (calls self)
          \<and> cluster_stateful_sets (snd (on_config_changed r self)) = cluster_stateful_sets self)
       \<and> (expected \<notin> set es
          \<and> init_containers (tmpl_spec (template (sts_spec s))) = Some ics
          \<and> expected \<in> set (spgwc_add_env r) \<longrightarrow>
            (let self1 = snd (on_config_changed r self);
                 self2 = snd (on_config_changed r self1) in
             \<exists>s'. fst (on_config_changed r self) = Inr ()
                \<and> filter mutating (calls self1) = filter mutating (calls self)
                     @ [PatchNamespacedStatefulSet (charm_app self) (charm_namespace self) s']
                \<and> cluster_stateful_sets self1 (charm_namespace self, charm_app self) = Some s'
                \<and> fst (statefulset_patched self1) = Inr True
                \<and> fst (on_config_changed r self1) = Inr ()
                \<and> filter mutating (calls self2) = filter mutating (calls self1)
                \<and> cluster_stateful_sets self2 = cluster_stateful_sets self1))"
proof (intro conjI impI)
  assume present: "expected \<in> set es"
  show "fst (statefulset_patched self) = Inr True"
    using sts len env present by (simp add: statefulset_patched_eq)
  note run = on_config_changed_patched [OF auth sts len env present, of r]
  show "fst (on_config_changed r self) = Inr ()"
    by (simp add: run)
  show "filter mutating (calls (snd (on_config_changed r self))) = filter mutating (calls self)"
    by (simp add: run)
  show "cluster_stateful_sets (snd (on_config_changed r self)) = cluster_stateful_sets self"
    by (simp add: run)
next
  assume h: "expected \<notin> set es
          \<and> init_containers (tmpl_spec (template (sts_spec s))) = Some ics
          \<and> expected \<in> set (spgwc_add_env r)"
  obtain s' where po: "patched_object r s = Inr s'"
    using patched_object_ok [OF len env, of ics r] h by blast
  from patched_object_env [OF po env]
  have env': "env (pod_containers s' ! 1) = Some (es @ spgwc_add_env r)"
    and len': "2 \<le> length (pod_containers s')"
    using len by simp_all
  have present': "expected \<in> set (es @ spgwc_add_env r)"
    using h by simp
  define self1 where "self1 = snd (on_config_changed r self)"
  note run1 = on_config_changed_unpatched [OF auth sts len env _ po]
  have s1: "self1 = (if authed self then self
       else self\<lparr>calls := calls self @ [ListClusterRole], authed := True\<rparr>)
      \<lparr>calls := (if authed self then calls self else calls self @ [ListClusterRole])
           @ [ReadNamespacedStatefulSet (charm_app self) (charm_namespace self),
              ReadNamespacedStatefulSet (charm_app self) (charm_namespace self),
              PatchNamespacedStatefulSet (charm_app self) (charm_namespace self) s'],
        unit_status := ActiveStatus,
        cluster_stateful_sets := (cluster_stateful_sets self)
           ((charm_namespace self, charm_app self) \<mapsto> s')\<rparr>"
    using h by (simp add: self1_def run1)
  have auth1: "authed self1 \<or> (incluster_config self1 = None \<and> cluster_role_probe self1 = None)"
    using auth by (simp add: s1)
  have ns1: "charm_namespace self1 = charm_namespace self" "charm_app self1 = charm_app self"
    by (simp_all add: s1)
  have sts1: "cluster_stateful_sets self1 (charm_namespace self1, charm_app self1) = Some s'"
    by (simp add: s1)
  note run2 = on_config_changed_patched [OF auth1 sts1 len' env' present', of r]
  have a: "fst (on_config_changed r self) = Inr ()"
    using h by (simp add: run1)
  have b: "filter mutating (calls self1) = filter mutating (calls self)
                     @ [PatchNamespacedStatefulSet (charm_app self) (charm_namespace self) s']"
    by (simp add: s1)
  have c: "fst (statefulset_patched self1) = Inr True"
    using sts1 len' env' present' by (simp add: statefulset_patched_eq)
  have d: "fst (on_config_changed r self1) = Inr ()"
    by (simp add: run2)
  have e: "filter mutating (calls (snd (on_config_changed r self1))) = filter mutating (calls self1)"
    by (simp add: run2)
  have f: "cluster_stateful_sets (snd (on_config_changed r self1)) = cluster_stateful_sets self1"
    by (simp add: run2)
  show "let self1 = snd (on_config_changed r self);
                 self2 = snd (on_config_changed r self1) in
             \<exists>s'. fst (on_config_changed r self) = Inr ()
                \<and> filter mutating (calls self1) = filter mutating (calls self)
                     @ [PatchNamespacedStatefulSet (charm_app self) (charm_namespace self) s']
                \<and> cluster_stateful_sets self1 (charm_namespace self, charm_app self) = Some s'
                \<and> fst (statefulset_patched self1) = Inr True
                \<and> fst (on_config_changed r self1) = Inr ()
                \<and> filter mutating (calls self2) = filter mutating (calls self1)
                \<and> cluster_stateful_sets self2 = cluster_stateful_sets self1"
    unfolding Let_def self1_def [symmetric]
    using a b c d e f sts1 ns1 by auto
qed

theorem statefulset_patched_at_most_once_witness:
  "fst (on_config_changed sample_resources (fresh_charm already_patched None)) = Inr ()
   \<and> filter mutating (calls (snd (on_config_changed sample_resources
        (fresh_charm already_patched None)))) = []
   \<and> length (filter mutating (calls (snd (on_config_changed sample_resources
        (fresh_charm two_containers None))))) = 1
   \<and> filter mutating (calls (snd (on_config_changed sample_resources
        (snd (on_config_changed sample_resources (fresh_charm two_containers None))))))
     = filter mutating (calls (snd (on_config_changed sample_resources
        (fresh_charm two_containers None))))"
proof -
  have a: "authed (fresh_charm s None) \<or>
      (incluster_config (fresh_charm s None) = None \<and> cluster_role_probe (fresh_charm s None) = None)"
    for s by (simp add: fresh_charm_def)
  have b: "cluster_stateful_sets (fresh_charm s None)
      (charm_namespace (fresh_charm s None), charm_app (fresh_charm s None)) = Some s" for s
    by (simp add: fresh_charm_def)
  have c1: "2 \<le> length (pod_containers already_patched)"
    by (simp add: already_patched_def stateful_set_of_def pod_containers_def)
  have d1: "env (pod_containers already_patched ! 1) = Some [expected]"
    by (simp add: already_patched_def stateful_set_of_def pod_containers_def plain_container_def)
  have c2: "2 \<le> length (pod_containers two_containers)"
    by (simp add: two_containers_def stateful_set_of_def pod_containers_def)
  have d2: "env (pod_containers two_containers ! 1) = Some []"
    by (simp add: two_containers_def stateful_set_of_def pod_containers_def plain_container_def)
  have e2: "init_containers (tmpl_spec (template (sts_spec two_containers))) = Some []"
    by (simp add: two_containers_def stateful_set_of_def)
  have f2: "expected \<in> set (spgwc_add_env sample_resources)"
    by (simp add: sample_resources_def)
  have g: "calls (fresh_charm s None) = []" for s
    by (simp add: fresh_charm_def)
  show ?thesis
    using statefulset_patched_at_most_once [OF a b c1 d1, of sample_resources "[]"]
      statefulset_patched_at_most_once [OF a b c2 d2, of sample_resources "[]"] e2 f2
    by (auto simp: g Let_def)
qed

text \<open>
  C4. On a StatefulSet of at least two containers whose container 1 has an env list and
  whose pod has an init-container list, \<open>_patch_stateful_set\<close> returns having issued one
  read and exactly one patch call, whose body \<open>s'\<close> replaces the stored object. In \<open>s'\<close>
  the env of container 1 is the old one followed by all entries of \<open>spgwc_add_env\<close>, the
  init containers are the old ones followed by all of \<open>add_spgwc_init_containers\<close>,
  container 1 has the resource requirements, stdin and tty set; and putting the old
  values of these five fields back into \<open>s'\<close> gives the object read: nothing else
  changed. This holds whether or not the expected variable is in the env list; the
  config-changed handler calls the method only when it is not.
\<close>

theorem patch_stateful_set_effect:
  assumes "cluster_stateful_sets self (charm_namespace self, charm_app self) = Some s"
    and "2 \<le> length (pod_containers s)"
    and "env (pod_containers s ! 1) = Some es"
    and "init_containers (tmpl_spec (template (sts_spec s))) = Some ics"
  shows "\<exists>s'.
      patch_stateful_set r self =
        (Inr (),
         self\<lparr>unit_status :=
                MaintenanceStatus ''patching StatefulSet for additional k8s permissions'',
              calls := calls self
                @ [ReadNamespacedStatefulSet (charm_app self) (charm_namespace self),
                   PatchNamespacedStatefulSet (charm_app self) (charm_namespace self) s'],
              cluster_stateful_sets := (cluster_stateful_sets self)
                ((charm_namespace self, charm_app self) \<mapsto> s')\<rparr>)
      \<and> env (pod_containers s' ! 1) = Some (es @ spgwc_add_env r)
      \<and> init_containers (tmpl_spec (template (sts_spec s')))
          = Some (ics @ add_spgwc_init_containers r)
      \<and> resources (pod_containers s' ! 1) = Some patch_resource_requirements
      \<and> stdin (pod_containers s' ! 1) = Some True
      \<and> tty (pod_containers s' ! 1) = Some True
      \<and> set_pod_spec
            ((tmpl_spec (template (sts_spec s')))
               \<lparr>containers := (pod_containers s')
                    [1 := (pod_containers s' ! 1)
                            \<lparr>env := Some es,
                              resources := resources (pod_containers s ! 1),
                              stdin := stdin (pod_containers s ! 1),
                              tty := tty (pod_containers s ! 1)\<rparr>],
                 init_containers := Some ics\<rparr>) s' = s"
proof -
  let ?s' = "set_pod_spec
            ((tmpl_spec (template (sts_spec s)))
               \<lparr>containers := (pod_containers s)
                    [1 := (pod_containers s ! 1)
                            \<lparr>env := Some (es @ spgwc_add_env r),
                              resources := Some patch_resource_requirements,
                              stdin := Some True, tty := Some True\<rparr>],
                 init_containers := Some (ics @ add_spgwc_init_containers r)\<rparr>) s"
  have po: "patched_object r s = Inr ?s'"
    using assms(2-4) by (rule patched_object_ok)
  have run: "patch_stateful_set r self =
        (Inr (),
         self\<lparr>unit_status :=
                MaintenanceStatus ''patching StatefulSet for additional k8s permissions'',
              calls := calls self
                @ [ReadNamespacedStatefulSet (charm_app self) (charm_namespace self),
                   PatchNamespacedStatefulSet (charm_app self) (charm_namespace self) ?s'],
              cluster_stateful_sets := (cluster_stateful_sets self)
                ((charm_namespace self, charm_app self) \<mapsto> ?s')\<rparr>)"
    using assms(1) by (simp add: patch_stateful_set_eq po Let_def)
  have cs: "pod_containers ?s' = (pod_containers s)
                    [1 := (pod_containers s ! 1)
                            \<lparr>env := Some (es @ spgwc_add_env r),
                              resources := Some patch_resource_requirements,
                              stdin := Some True, tty := Some True\<rparr>]"
    by (simp add: pod_containers_def set_pod_spec_def)
  have c1: "pod_containers ?s' ! 1 = (pod_containers s ! 1)
                            \<lparr>env := Some (es @ spgwc_add_env r),
                              resources := Some patch_resource_requirements,
                              stdin := Some True, tty := Some True\<rparr>"
    unfolding cs using assms(2) by simp
  have ic: "init_containers (tmpl_spec (template (sts_spec ?s')))
          = Some (ics @ add_spgwc_init_containers r)"
    by (simp add: set_pod_spec_def)
  have restore: "(pod_containers s)[1 := pod_containers s ! 1] = pod_containers s"
    by simp
  have frame: "set_pod_spec
            ((tmpl_spec (template (sts_spec ?s')))
               \<lparr>containers := (pod_containers ?s')
                    [1 := (pod_containers ?s' ! 1)
                            \<lparr>env := Some es,
                              resources := resources (pod_containers s ! 1),
                              stdin := stdin (pod_containers s ! 1),
                              tty := tty (pod_containers s ! 1)\<rparr>],
                 init_containers := Some ics\<rparr>) ?s' = s"
    unfolding c1 unfolding cs
    by (simp add: set_pod_spec_def pod_containers_def
        assms(3) [unfolded pod_containers_def, symmetric] assms(4) [symmetric])
  show ?thesis
    apply (rule exI [of _ ?s'])
    using run c1 ic frame by simp
qed

theorem patch_stateful_set_effect_witness:
  "\<exists>s'. patch_stateful_set sample_resources (fresh_charm two_containers None) =
        (Inr (),
         (fresh_charm two_containers None)
           \<lparr>unit_status :=
                MaintenanceStatus ''patching StatefulSet for additional k8s permissions'',
            calls := [ReadNamespacedStatefulSet ''spgwc'' ''omec'',
                      PatchNamespacedStatefulSet ''spgwc'' ''omec'' s'],
            cluster_stateful_sets := [(''omec'', ''spgwc'') \<mapsto> s']\<rparr>)
      \<and> env (pod_containers s' ! 1) = Some [expected]
      \<and> init_containers (tmpl_spec (template (sts_spec s'))) = Some add_spgwu_init_containers
      \<and> pod_containers s' ! 0 = plain_container ''charm''"
proof -
  have h1: "cluster_stateful_sets (fresh_charm two_containers None)
      (charm_namespace (fresh_charm two_containers None), charm_app (fresh_charm two_containers None))
      = Some two_containers"
    by (simp add: fresh_charm_def)
  have h2: "2 \<le> length (pod_containers two_containers)"
    by (simp add: two_containers_def stateful_set_of_def pod_containers_def)
  have h3: "env (pod_containers two_containers ! 1) = Some []"
    by (simp add: two_containers_def stateful_set_of_def pod_containers_def plain_container_def)
  have h4: "init_containers (tmpl_spec (template (sts_spec two_containers))) = Some []"
    by (simp add: two_containers_def stateful_set_of_def)
  from patch_stateful_set_effect [OF h1 h2 h3 h4, of sample_resources]
  obtain s' where run: "patch_stateful_set sample_resources (fresh_charm two_containers None) =
        (Inr (),
         (fresh_charm two_containers None)
           \<lparr>unit_status :=
                MaintenanceStatus ''patching StatefulSet for additional k8s permissions'',
            calls := calls (fresh_charm two_containers None)
                @ [ReadNamespacedStatefulSet (charm_app (fresh_charm two_containers None))
                     (charm_namespace (fresh_charm two_containers None)),
                   PatchNamespacedStatefulSet (charm_app (fresh_charm two_containers None))
                     (charm_namespace (fresh_charm two_containers None)) s'],
            cluster_stateful_sets := (cluster_stateful_sets (fresh_charm two_containers None))
                ((charm_namespace (fresh_charm two_containers None),
                  charm_app (fresh_charm two_containers None)) \<mapsto> s')\<rparr>)"
    and e: "env (pod_containers s' ! 1) = Some ([] @ spgwc_add_env sample_resources)"
    and i: "init_containers (tmpl_spec (template (sts_spec s')))
          = Some ([] @ add_spgwc_init_containers sample_resources)"
    and f: "set_pod_spec
            ((tmpl_spec (template (sts_spec s')))
               \<lparr>containers := (pod_containers s')
                    [1 := (pod_containers s' ! 1)
                            \<lparr>env := Some [],
                              resources := resources (pod_containers two_containers ! 1),
                              stdin := stdin (pod_containers two_containers ! 1),
                              tty := tty (pod_containers two_containers ! 1)\<rparr>],
                 init_containers := Some []\<rparr>) s' = two_containers"
    by blast
  from f have "pod_containers (set_pod_spec
            ((tmpl_spec (template (sts_spec s')))
               \<lparr>containers := (pod_containers s')
                    [1 := (pod_containers s' ! 1)
                            \<lparr>env := Some [],
                              resources := resources (pod_containers two_containers ! 1),
                              stdin := stdin (pod_containers two_containers ! 1),
                              tty := tty (pod_containers two_containers ! 1)\<rparr>],
                 init_containers := Some []\<rparr>) s') ! 0 = pod_containers two_containers ! 0"
    by simp
  then have z: "pod_containers s' ! 0 = plain_container ''charm''"
    by (simp add: pod_containers_def set_pod_spec_def two_containers_def stateful_set_of_def)
  show ?thesis
    apply (rule exI [of _ s'])
    using run e i z by (simp add: fresh_charm_def sample_resources_def)
qed


text \<open>
  C10. Both \<open>_statefulset_patched\<close> and \<open>_patch_stateful_set\<close> index the containers at 1:
  on a StatefulSet of fewer than two containers each of them raises \<open>IndexError\<close> after
  its read, and the patch issues no write. And whatever \<open>_patch_stateful_set\<close> leaves in
  the cluster, for any StatefulSet, the container at index 0 is the one that was there.
\<close>

theorem index_one_hard_coded:
  assumes "cluster_stateful_sets self (charm_namespace self, charm_app self) = Some s"
    and "length (pod_containers s) < 2"
  shows "statefulset_patched self =
           (Inl IndexError,
            self\<lparr>calls := calls self
              @ [ReadNamespacedStatefulSet (charm_app self) (charm_namespace self)]\<rparr>)
       \<and> patch_stateful_set r self =
           (Inl IndexError,
            self\<lparr>unit_status :=
                   MaintenanceStatus ''patching StatefulSet for additional k8s permissions'',
                 calls := calls self
              @ [ReadNamespacedStatefulSet (charm_app self) (charm_namespace self)]\<rparr>)
       \<and> (\<forall>r' self' k s0 s1.
             cluster_stateful_sets self' k = Some s0 \<and>
             cluster_stateful_sets (snd (patch_stateful_set r' self')) k = Some s1
             \<longrightarrow> pod_containers s1 ! 0 = pod_containers s0 ! 0)"
proof -
  have a: "statefulset_patched self =
           (Inl IndexError,
            self\<lparr>calls := calls self
              @ [ReadNamespacedStatefulSet (charm_app self) (charm_namespace self)]\<rparr>)"
    using assms by (simp add: statefulset_patched_eq)
  have b: "patch_stateful_set r self =
           (Inl IndexError,
            self\<lparr>unit_status :=
                   MaintenanceStatus ''patching StatefulSet for additional k8s permissions'',
                 calls := calls self
              @ [ReadNamespacedStatefulSet (charm_app self) (charm_namespace self)]\<rparr>)"
    using assms by (simp add: patch_stateful_set_eq patched_object_short)
  have c: "pod_containers s1 ! 0 = pod_containers s0 ! 0"
    if "cluster_stateful_sets self' k = Some s0"
      and "cluster_stateful_sets (snd (patch_stateful_set r' self')) k = Some s1"
    for r' self' k s0 s1
    using that
    by (auto simp: patch_stateful_set_eq Let_def dest: patched_object_first
        split: option.splits sum.splits if_splits)
  from a b c show ?thesis by blast
qed

theorem index_one_hard_coded_witness:
  "statefulset_patched (fresh_charm one_container None) =
     (Inl IndexError,
      (fresh_charm one_container None)\<lparr>calls := [ReadNamespacedStatefulSet ''spgwc'' ''omec'']\<rparr>)
   \<and> patch_stateful_set sample_resources (fresh_charm one_container None) =
     (Inl IndexError,
      (fresh_charm one_container None)
        \<lparr>unit_status := MaintenanceStatus ''patching StatefulSet for additional k8s permissions'',
          calls := [ReadNamespacedStatefulSet ''spgwc'' ''omec'']\<rparr>)"
  using index_one_hard_coded [of "fresh_charm one_container None" one_container sample_resources]
  by (simp add: fresh_charm_def one_container_def stateful_set_of_def pod_containers_def)

subsection \<open>The resources of the spgwu charm\<close>

lemma get_config_data_loop_files:
  "files w' = files w \<Longrightarrow>
   get_config_data_loop w' ps d = get_config_data_loop w ps d"
  by (induction ps arbitrary: d) (simp_all add: loadfile_def split: option.splits file_content.splits)

lemma configmaps_files:
  "glob_files w' = glob_files w \<Longrightarrow> files w' = files w \<Longrightarrow>
   configmaps r w' = configmaps r w"
  by (simp add: configmaps_def get_config_data_def get_config_data_loop_files [of w' w]
      split: sum.splits)

lemma configmaps_Inr:
  "configmaps r w = Inr cms \<Longrightarrow>
   \<exists>d. get_config_data w (script_path r) = Inr d \<and>
       cms = [\<lparr>d_namespace = namespace r,
               body = \<lparr>cm_api_version = ''v1'',
                       cm_metadata = \<lparr>meta_namespace = namespace r,
                                      meta_name = ''spgwu'',
                                      labels = [''app.kubernetes.io/name'' \<mapsto> app_name r,
                                                ''app'' \<mapsto> app_name r]\<rparr>,
                       cm_data = d\<rparr>\<rparr>]"
  by (auto simp: configmaps_def split: sum.splits)

lemma list_namespaced_service_name:
  "list_namespaced_service ns (''metadata.name='' @ n) w =
     (Inr (case cluster_services w (ns, n) of None \<Rightarrow> [] | Some x \<Rightarrow> [x]),
      log_call (ListNamespacedService ns (''metadata.name='' @ n)) w)"
  by (simp add: list_namespaced_service_def field_selector_name_def Let_def)

lemma list_namespaced_config_map_name:
  "list_namespaced_config_map ns (''metadata.name='' @ n) w =
     (Inr (case cluster_config_maps w (ns, n) of None \<Rightarrow> [] | Some x \<Rightarrow> [x]),
      log_call (ListNamespacedConfigMap ns (''metadata.name='' @ n)) w)"
  by (simp add: list_namespaced_config_map_def field_selector_name_def Let_def)

lemma apply_service_eq:
  "apply_service d w =
     (Inr (),
      w\<lparr>calls := calls w
           @ [ListNamespacedService (d_namespace d)
                (''metadata.name='' @ meta_name (svc_metadata (body d))),
              if cluster_services w (d_namespace d, meta_name (svc_metadata (body d))) = None
              then CreateNamespacedService (d_namespace d) (body d)
              else PatchNamespacedService (meta_name (svc_metadata (body d)))
                     (d_namespace d) (body d)],
         cluster_services := (cluster_services w)
           ((d_namespace d, meta_name (svc_metadata (body d))) \<mapsto> body d)\<rparr>)"
  unfolding apply_service_def and_then_def list_namespaced_service_name
  by (cases "cluster_services w (d_namespace d, meta_name (svc_metadata (body d)))")
     (simp_all add: create_namespaced_service_def patch_namespaced_service_def log_call_def
        Let_def)

lemma apply_configmap_eq:
  "apply_configmap d w =
     (Inr (),
      w\<lparr>calls := calls w
           @ [ListNamespacedConfigMap (d_namespace d)
                (''metadata.name='' @ meta_name (cm_metadata (body d))),
              if cluster_config_maps w (d_namespace d, meta_name (cm_metadata (body d))) = None
              then CreateNamespacedConfigMap (d_namespace d) (body d)
              else PatchNamespacedConfigMap (meta_name (cm_metadata (body d)))
                     (d_namespace d) (body d)],
         cluster_config_maps := (cluster_config_maps w)
           ((d_namespace d, meta_name (cm_metadata (body d))) \<mapsto> body d)\<rparr>)"
  unfolding apply_configmap_def and_then_def list_namespaced_config_map_name
  by (cases "cluster_config_maps w (d_namespace d, meta_name (cm_metadata (body d)))")
     (simp_all add: create_namespaced_config_map_def patch_namespaced_config_map_def
        log_call_def Let_def)

lemma for_each_single: "for_each f [x] = f x"
  by (rule ext) (simp add: and_then_def return_def split: prod.splits sum.splits)

lemma services_single:
  "services r = [hd (services r)]"
  "d_namespace (hd (services r)) = namespace r"
  "meta_name (svc_metadata (body (hd (services r)))) = ''spgwu-dp-comm''"
  by (simp_all add: services_def)

lemma literal_append:
  "''metadata.name='' @ ''spgwu-dp-comm'' = ''metadata.name=spgwu-dp-comm''"
  "''metadata.name='' @ ''spgwu'' = ''metadata.name=spgwu''"
  by simp_all

lemma SpgwuResources_apply_eq:
  assumes "configmaps r w = Inr cms"
  shows "SpgwuResources_apply r w =
     (Inr (),
      w\<lparr>calls := calls w
           @ [ListNamespacedService (namespace r) ''metadata.name=spgwu-dp-comm'',
              if cluster_services w (namespace r, ''spgwu-dp-comm'') = None
              then CreateNamespacedService (namespace r) (body (hd (services r)))
              else PatchNamespacedService ''spgwu-dp-comm'' (namespace r)
                     (body (hd (services r))),
              ListNamespacedConfigMap (namespace r) ''metadata.name=spgwu'',
              if cluster_config_maps w (namespace r, ''spgwu'') = None
              then CreateNamespacedConfigMap (namespace r) (body (hd cms))
              else PatchNamespacedConfigMap ''spgwu'' (namespace r) (body (hd cms))],
         cluster_services := (cluster_services w)
           ((namespace r, ''spgwu-dp-comm'') \<mapsto> body (hd (services r))),
         cluster_config_maps := (cluster_config_maps w)
           ((namespace r, ''spgwu'') \<mapsto> body (hd cms))\<rparr>)"
proof -
  from configmaps_Inr [OF assms] obtain d where
    cms: "cms = [\<lparr>d_namespace = namespace r,
               body = \<lparr>cm_api_version = ''v1'',
                       cm_metadata = \<lparr>meta_namespace = namespace r,
                                      meta_name = ''spgwu'',
                                      labels = [''app.kubernetes.io/name'' \<mapsto> app_name r,
                                                ''app'' \<mapsto> app_name r]\<rparr>,
                       cm_data = d\<rparr>\<rparr>]"
    by auto
  have c1: "cms = [hd cms]" "d_namespace (hd cms) = namespace r"
    "meta_name (cm_metadata (body (hd cms))) = ''spgwu''"
    by (simp_all add: cms)
  define w1 where "w1 = snd (apply_service (hd (services r)) w)"
  have step1: "for_each apply_service (services r) w = (Inr (), w1)"
    by (subst services_single(1), subst for_each_single) (simp add: w1_def apply_service_eq)
  have w1: "w1 = w\<lparr>calls := calls w
           @ [ListNamespacedService (namespace r) ''metadata.name=spgwu-dp-comm'',
              if cluster_services w (namespace r, ''spgwu-dp-comm'') = None
              then CreateNamespacedService (namespace r) (body (hd (services r)))
              else PatchNamespacedService ''spgwu-dp-comm'' (namespace r)
                     (body (hd (services r)))],
         cluster_services := (cluster_services w)
           ((namespace r, ''spgwu-dp-comm'') \<mapsto> body (hd (services r)))\<rparr>"
    unfolding w1_def apply_service_eq services_single(2,3) snd_conv literal_append
    by (rule refl)
  have step2: "configmaps r w1 = Inr cms"
  proof -
    have "configmaps r w1 = configmaps r w"
      by (rule configmaps_files) (simp_all add: w1)
    with assms show ?thesis by simp
  qed
  have step3: "for_each apply_configmap cms w1 = apply_configmap (hd cms) w1"
    by (subst c1(1), subst for_each_single) simp
  have run: "SpgwuResources_apply r w = apply_configmap (hd cms) w1"
    by (simp add: SpgwuResources_apply_def and_then_def lift_def step1 step2 step3)
  have cm_same: "cluster_config_maps w1 = cluster_config_maps w"
    unfolding w1 by simp
  have calls1: "calls w1 = calls w
           @ [ListNamespacedService (namespace r) ''metadata.name=spgwu-dp-comm'',
              if cluster_services w (namespace r, ''spgwu-dp-comm'') = None
              then CreateNamespacedService (namespace r) (body (hd (services r)))
              else PatchNamespacedService ''spgwu-dp-comm'' (namespace r)
                     (body (hd (services r)))]"
    unfolding w1 by simp
  show ?thesis
    unfolding run apply_configmap_eq c1(2,3) cm_same calls1
    unfolding w1
    by (cases "cluster_services w (namespace r, ''spgwu-dp-comm'') = None";
        cases "cluster_config_maps w (namespace r, ''spgwu'') = None") simp_all
qed

lemma basename_examples:
  "basename ''src/files/Script/setup-af-iface.sh'' = ''setup-af-iface.sh''"
  by (simp add: basename_def)

lemma configmaps_files_world:
  "configmaps spgwu_res files_world =
     Inr [\<lparr>d_namespace = ''omec'',
           body = \<lparr>cm_api_version = ''v1'',
                   cm_metadata = \<lparr>meta_namespace = ''omec'', meta_name = ''spgwu'',
                                  labels = [''app.kubernetes.io/name'' \<mapsto> ''spgwu'',
                                            ''app'' \<mapsto> ''spgwu'']\<rparr>,
                   cm_data = [''setup-af-iface.sh'' \<mapsto> ''ip link'']\<rparr>\<rparr>]"
  by (simp add: configmaps_def get_config_data_def spgwu_res_def SpgwuResources_init_def
      files_world_def bare_world_def charm_files_def loadfile_def basename_examples)

lemma configmaps_bare_world:
  "configmaps spgwu_res bare_world =
     Inr [\<lparr>d_namespace = ''omec'',
           body = \<lparr>cm_api_version = ''v1'',
                   cm_metadata = \<lparr>meta_namespace = ''omec'', meta_name = ''spgwu'',
                                  labels = [''app.kubernetes.io/name'' \<mapsto> ''spgwu'',
                                            ''app'' \<mapsto> ''spgwu'']\<rparr>,
                   cm_data = Map.empty\<rparr>\<rparr>]"
  by (simp add: configmaps_def get_config_data_def spgwu_res_def SpgwuResources_init_def
      bare_world_def)

lemma SpgwuResources_delete_eq:
  assumes "configmaps r w = Inr cms"
  shows "SpgwuResources_delete r w =
     (if cluster_services w (namespace r, ''spgwu-dp-comm'') = None
      then (Inl (ApiException 404),
            w\<lparr>calls := calls w @ [DeleteNamespacedService (namespace r) ''spgwu-dp-comm'']\<rparr>)
      else if cluster_config_maps w (namespace r, ''spgwu'') = None
      then (Inl (ApiException 404),
            w\<lparr>calls := calls w @ [DeleteNamespacedService (namespace r) ''spgwu-dp-comm'',
                                   DeleteNamespacedConfigMap (namespace r) ''spgwu''],
              cluster_services := (cluster_services w)((namespace r, ''spgwu-dp-comm'') := None)\<rparr>)
      else (Inr (),
            w\<lparr>calls := calls w @ [DeleteNamespacedService (namespace r) ''spgwu-dp-comm'',
                                   DeleteNamespacedConfigMap (namespace r) ''spgwu''],
              cluster_services := (cluster_services w)((namespace r, ''spgwu-dp-comm'') := None),
              cluster_config_maps := (cluster_config_maps w)((namespace r, ''spgwu'') := None)\<rparr>))"
proof (cases "cluster_services w (namespace r, ''spgwu-dp-comm'')")
  case None
  have "for_each delete_service (services r) w =
      (Inl (ApiException 404),
       w\<lparr>calls := calls w @ [DeleteNamespacedService (namespace r) ''spgwu-dp-comm'']\<rparr>)"
    by (subst services_single(1), subst for_each_single)
       (simp add: delete_service_def delete_namespaced_service_def services_single(2,3)
          log_call_def None)
  then show ?thesis
    by (simp add: SpgwuResources_delete_def and_then_def None)
next
  case (Some x)
  define w1 where "w1 = w\<lparr>calls := calls w @ [DeleteNamespacedService (namespace r) ''spgwu-dp-comm''],
       cluster_services := (cluster_services w)((namespace r, ''spgwu-dp-comm'') := None)\<rparr>"
  have step1: "for_each delete_service (services r) w = (Inr (), w1)"
    by (subst services_single(1), subst for_each_single)
       (simp add: delete_service_def delete_namespaced_service_def services_single(2,3)
          log_call_def Some w1_def)
  have "configmaps r w1 = configmaps r w"
    by (rule configmaps_files) (simp_all add: w1_def)
  with assms have step2: "configmaps r w1 = Inr cms" by simp
  from configmaps_Inr [OF assms] obtain d where
    cms: "cms = [\<lparr>d_namespace = namespace r,
               body = \<lparr>cm_api_version = ''v1'',
                       cm_metadata = \<lparr>meta_namespace = namespace r,
                                      meta_name = ''spgwu'',
                                      labels = [''app.kubernetes.io/name'' \<mapsto> app_name r,
                                                ''app'' \<mapsto> app_name r]\<rparr>,
                       cm_data = d\<rparr>\<rparr>]"
    by auto
  have c1: "cms = [hd cms]" "d_namespace (hd cms) = namespace r"
    "meta_name (cm_metadata (body (hd cms))) = ''spgwu''"
    by (simp_all add: cms)
  have step3: "for_each delete_configmap cms w1 = delete_configmap (hd cms) w1"
    by (subst c1(1), subst for_each_single) simp
  have run: "SpgwuResources_delete r w = delete_configmap (hd cms) w1"
    by (simp add: SpgwuResources_delete_def and_then_def lift_def step1 step2 step3)
  show ?thesis
  proof (cases "cluster_config_maps w (namespace r, ''spgwu'')")
    case None
    then show ?thesis
      unfolding run
      by (simp add: delete_configmap_def delete_namespaced_config_map_def c1(2,3)
          log_call_def w1_def Some)
  next
    case (Some y)
    then show ?thesis
      unfolding run
      by (simp add: delete_configmap_def delete_namespaced_config_map_def c1(2,3)
          log_call_def w1_def \<open>cluster_services w (namespace r, ''spgwu-dp-comm'') = Some x\<close>)
  qed
qed

text \<open>
  C1. For any Service descriptor \<open>d\<close> and any ConfigMap descriptor \<open>c\<close>, the body of the
  loop of \<open>apply\<close> issues two calls: first the list call with the field selector
  \<open>metadata.name=\<close> followed by the descriptor's name, then a create call when no object
  of that name exists in the descriptor's namespace and a patch call with the
  descriptor's body when one exists. \<open>apply\<close> itself, when the charm's files can be read,
  does so for its Service and then for its ConfigMap.
\<close>

theorem apply_lists_then_creates_or_patches:
  "apply_service d w =
     (Inr (),
      w\<lparr>calls := calls w
           @ [ListNamespacedService (d_namespace d)
                (''metadata.name='' @ meta_name (svc_metadata (body d))),
              if cluster_services w (d_namespace d, meta_name (svc_metadata (body d))) = None
              then CreateNamespacedService (d_namespace d) (body d)
              else PatchNamespacedService (meta_name (svc_metadata (body d)))
                     (d_namespace d) (body d)],
         cluster_services := (cluster_services w)
           ((d_namespace d, meta_name (svc_metadata (body d))) \<mapsto> body d)\<rparr>)
   \<and> apply_configmap c w =
     (Inr (),
      w\<lparr>calls := calls w
           @ [ListNamespacedConfigMap (d_namespace c)
                (''metadata.name='' @ meta_name (cm_metadata (body c))),
              if cluster_config_maps w (d_namespace c, meta_name (cm_metadata (body c))) = None
              then CreateNamespacedConfigMap (d_namespace c) (body c)
              else PatchNamespacedConfigMap (meta_name (cm_metadata (body c)))
                     (d_namespace c) (body c)],
         cluster_config_maps := (cluster_config_maps w)
           ((d_namespace c, meta_name (cm_metadata (body c))) \<mapsto> body c)\<rparr>)
   \<and> (configmaps r w = Inr cms \<longrightarrow>
      SpgwuResources_apply r w =
      (Inr (),
       w\<lparr>calls := calls w
           @ [ListNamespacedService (namespace r) ''metadata.name=spgwu-dp-comm'',
              if cluster_services w (namespace r, ''spgwu-dp-comm'') = None
              then CreateNamespacedService (namespace r) (body (hd (services r)))
              else PatchNamespacedService ''spgwu-dp-comm'' (namespace r)
                     (body (hd (services r))),
              ListNamespacedConfigMap (namespace r) ''metadata.name=spgwu'',
              if cluster_config_maps w (namespace r, ''spgwu'') = None
              then CreateNamespacedConfigMap (namespace r) (body (hd cms))
              else PatchNamespacedConfigMap ''spgwu'' (namespace r) (body (hd cms))],
         cluster_services := (cluster_services w)
           ((namespace r, ''spgwu-dp-comm'') \<mapsto> body (hd (services r))),
         cluster_config_maps := (cluster_config_maps w)
           ((namespace r, ''spgwu'') \<mapsto> body (hd cms))\<rparr>))"
proof (intro conjI impI)
  show "apply_service d w =
     (Inr (),
      w\<lparr>calls := calls w
           @ [ListNamespacedService (d_namespace d)
                (''metadata.name='' @ meta_name (svc_metadata (body d))),
              if cluster_services w (d_namespace d, meta_name (svc_metadata (body d))) = None
              then CreateNamespacedService (d_namespace d) (body d)
              else PatchNamespacedService (meta_name (svc_metadata (body d)))
                     (d_namespace d) (body d)],
         cluster_services := (cluster_services w)
           ((d_namespace d, meta_name (svc_metadata (body d))) \<mapsto> body d)\<rparr>)"
    by (rule apply_service_eq)
next
  show "apply_configmap c w =
     (Inr (),
      w\<lparr>calls := calls w
           @ [ListNamespacedConfigMap (d_namespace c)
                (''metadata.name='' @ meta_name (cm_metadata (body c))),
              if cluster_config_maps w (d_namespace c, meta_name (cm_metadata (body c))) = None
              then CreateNamespacedConfigMap (d_namespace c) (body c)
              else PatchNamespacedConfigMap (meta_name (cm_metadata (body c)))
                     (d_namespace c) (body c)],
         cluster_config_maps := (cluster_config_maps w)
           ((d_namespace c, meta_name (cm_metadata (body c))) \<mapsto> body c)\<rparr>)"
    by (rule apply_configmap_eq)
next
  assume "configmaps r w = Inr cms"
  then show "SpgwuResources_apply r w =
      (Inr (),
       w\<lparr>calls := calls w
           @ [ListNamespacedService (namespace r) ''metadata.name=spgwu-dp-comm'',
              if cluster_services w (namespace r, ''spgwu-dp-comm'') = None
              then CreateNamespacedService (namespace r) (body (hd (services r)))
              else PatchNamespacedService ''spgwu-dp-comm'' (namespace r)
                     (body (hd (services r))),
              ListNamespacedConfigMap (namespace r) ''metadata.name=spgwu'',
              if cluster_config_maps w (namespace r, ''spgwu'') = None
              then CreateNamespacedConfigMap (namespace r) (body (hd cms))
              else PatchNamespacedConfigMap ''spgwu'' (namespace r) (body (hd cms))],
         cluster_services := (cluster_services w)
           ((namespace r, ''spgwu-dp-comm'') \<mapsto> body (hd (services r))),
         cluster_config_maps := (cluster_config_maps w)
           ((namespace r, ''spgwu'') \<mapsto> body (hd cms))\<rparr>)"
    by (rule SpgwuResources_apply_eq)
qed

lemma configmaps_service_only_world:
  "configmaps spgwu_res service_only_world = configmaps spgwu_res files_world"
  by (rule configmaps_files) (simp_all add: service_only_world_def)

theorem apply_lists_then_creates_or_patches_witness:
  "calls (snd (SpgwuResources_apply spgwu_res service_only_world)) =
     [ListNamespacedService ''omec'' ''metadata.name=spgwu-dp-comm'',
      PatchNamespacedService ''spgwu-dp-comm'' ''omec'' (body (hd (services spgwu_res))),
      ListNamespacedConfigMap ''omec'' ''metadata.name=spgwu'',
      CreateNamespacedConfigMap ''omec''
        \<lparr>cm_api_version = ''v1'',
         cm_metadata = \<lparr>meta_namespace = ''omec'', meta_name = ''spgwu'',
                        labels = [''app.kubernetes.io/name'' \<mapsto> ''spgwu'',
                                  ''app'' \<mapsto> ''spgwu'']\<rparr>,
         cm_data = [''setup-af-iface.sh'' \<mapsto> ''ip link'']\<rparr>]"
proof -
  note cm = configmaps_service_only_world [unfolded configmaps_files_world]
  have ns: "namespace spgwu_res = ''omec''"
    by (simp add: spgwu_res_def SpgwuResources_init_def)
  have sv: "cluster_services service_only_world (''omec'', ''spgwu-dp-comm'') \<noteq> None"
    "cluster_config_maps service_only_world (''omec'', ''spgwu'') = None"
    "calls service_only_world = []"
    by (simp_all add: service_only_world_def files_world_def bare_world_def)
  from apply_lists_then_creates_or_patches [THEN conjunct2, THEN conjunct2, rule_format, OF cm]
  show ?thesis
    by (simp add: ns sv)
qed

text \<open>
  C3, amended. When the charm's files can be read, \<open>delete\<close> issues the delete call of
  the Service by namespace and name, then that of the ConfigMap, and catches nothing: it
  returns, with both objects removed, when both exist; when the Service is absent it
  raises the 404 of the first call and issues no other; when only the ConfigMap is
  absent it raises the 404 of the second call, the Service being removed.
\<close>

theorem delete_propagates_404:
  assumes "configmaps r w = Inr cms"
  shows "SpgwuResources_delete r w =
     (if cluster_services w (namespace r, ''spgwu-dp-comm'') = None
      then (Inl (ApiException 404),
            w\<lparr>calls := calls w @ [DeleteNamespacedService (namespace r) ''spgwu-dp-comm'']\<rparr>)
      else if cluster_config_maps w (namespace r, ''spgwu'') = None
      then (Inl (ApiException 404),
            w\<lparr>calls := calls w @ [DeleteNamespacedService (namespace r) ''spgwu-dp-comm'',
                                   DeleteNamespacedConfigMap (namespace r) ''spgwu''],
              cluster_services := (cluster_services w)((namespace r, ''spgwu-dp-comm'') := None)\<rparr>)
      else (Inr (),
            w\<lparr>calls := calls w @ [DeleteNamespacedService (namespace r) ''spgwu-dp-comm'',
                                   DeleteNamespacedConfigMap (namespace r) ''spgwu''],
              cluster_services := (cluster_services w)((namespace r, ''spgwu-dp-comm'') := None),
              cluster_config_maps := (cluster_config_maps w)((namespace r, ''spgwu'') := None)\<rparr>))"
  using assms by (rule SpgwuResources_delete_eq)

theorem delete_propagates_404_witness:
  "fst (SpgwuResources_delete spgwu_res deployed_world) = Inr ()
   \<and> calls (snd (SpgwuResources_delete spgwu_res deployed_world)) =
       [DeleteNamespacedService ''omec'' ''spgwu-dp-comm'',
        DeleteNamespacedConfigMap ''omec'' ''spgwu'']
   \<and> cluster_services (snd (SpgwuResources_delete spgwu_res deployed_world))
        (''omec'', ''spgwu-dp-comm'') = None
   \<and> cluster_config_maps (snd (SpgwuResources_delete spgwu_res deployed_world))
        (''omec'', ''spgwu'') = None"
proof -
  have "configmaps spgwu_res deployed_world = configmaps spgwu_res files_world"
    by (rule configmaps_files) (simp_all add: deployed_world_def service_only_world_def)
  note cm = this [unfolded configmaps_files_world]
  have ns: "namespace spgwu_res = ''omec''"
    by (simp add: spgwu_res_def SpgwuResources_init_def)
  have sv: "cluster_services deployed_world (''omec'', ''spgwu-dp-comm'') \<noteq> None"
    "cluster_config_maps deployed_world (''omec'', ''spgwu'') \<noteq> None"
    "calls deployed_world = []"
    by (simp_all add: deployed_world_def service_only_world_def files_world_def bare_world_def)
  from delete_propagates_404 [OF cm]
  show ?thesis
    by (simp add: ns sv)
qed

text \<open>
  C3, as stated, fails: in a cluster where the Service exists and the ConfigMap does not,
  \<open>delete\<close> ends with the \<open>ApiException\<close> of status 404 that the ConfigMap's delete call
  raises.
\<close>

theorem delete_missing_object_counterexample:
  "fst (SpgwuResources_delete spgwu_res service_only_world) = Inl (ApiException 404)"
proof -
  have "configmaps spgwu_res service_only_world = configmaps spgwu_res files_world"
    by (rule configmaps_files) (simp_all add: service_only_world_def)
  from SpgwuResources_delete_eq [OF this [unfolded configmaps_files_world]]
  show ?thesis
    by (simp add: service_only_world_def files_world_def bare_world_def spgwu_res_def
        SpgwuResources_init_def)
qed

lemma get_config_data_loop_ok:
  "\<forall>p\<in>set ps. \<exists>t. files w p = Some (Text t) \<Longrightarrow> \<exists>m. get_config_data_loop w ps d = Inr m"
  by (induction ps arbitrary: d) (auto simp: loadfile_def)

lemma configmaps_ok:
  assumes "\<forall>p\<in>set (glob_files w (script_path r)) \<union> set (glob_files w (configPath r))
              \<union> set (glob_files w (runscriptPath r)). \<exists>t. files w p = Some (Text t)"
  shows "\<exists>cms. configmaps r w = Inr cms"
proof -
  from assms obtain a where a: "get_config_data w (script_path r) = Inr a"
    unfolding get_config_data_def using get_config_data_loop_ok [of "glob_files w (script_path r)" w]
    by (meson UnCI)
  from assms obtain b where b: "get_config_data w (configPath r) = Inr b"
    unfolding get_config_data_def using get_config_data_loop_ok [of "glob_files w (configPath r)" w]
    by (meson UnCI)
  from assms obtain c where c: "get_config_data w (runscriptPath r) = Inr c"
    unfolding get_config_data_def using get_config_data_loop_ok [of "glob_files w (runscriptPath r)" w]
    by (meson UnCI)
  show ?thesis by (simp add: configmaps_def a b c)
qed

text \<open>
  C6, amended. \<open>_services\<close> is exactly one Service descriptor: type NodePort, one port
  with protocol UDP, port 8085 and node port 30020, and the selector
  \<open>app.kubernetes.io/name\<close> mapped to the application's name. \<open>_configmaps\<close>, when it
  returns, is exactly one ConfigMap descriptor: named \<open>spgwu\<close>, labelled with both
  \<open>app.kubernetes.io/name\<close> and \<open>app\<close>, its data being the scripts bundle.
\<close>

theorem desired_state_shape:
  "length (services r) = 1
   \<and> spec_type (svc_spec (body (hd (services r)))) = ''NodePort''
   \<and> map protocol (ports (svc_spec (body (hd (services r))))) = [''UDP'']
   \<and> map port (ports (svc_spec (body (hd (services r))))) = [8085]
   \<and> map node_port (ports (svc_spec (body (hd (services r))))) = [30020]
   \<and> selector (svc_spec (body (hd (services r)))) = [''app.kubernetes.io/name'' \<mapsto> app_name r]
   \<and> (configmaps r w = Inr cms \<longrightarrow>
        length cms = 1
      \<and> meta_name (cm_metadata (body (hd cms))) = ''spgwu''
      \<and> labels (cm_metadata (body (hd cms))) ''app.kubernetes.io/name'' = Some (app_name r)
      \<and> labels (cm_metadata (body (hd cms))) ''app'' = Some (app_name r)
      \<and> get_config_data w (script_path r) = Inr (cm_data (body (hd cms))))"
proof (intro conjI impI)
  assume ok: "configmaps r w = Inr cms"
  from configmaps_Inr [OF ok] obtain d where
    d: "get_config_data w (script_path r) = Inr d"
    and cms: "cms = [\<lparr>d_namespace = namespace r,
               body = \<lparr>cm_api_version = ''v1'',
                       cm_metadata = \<lparr>meta_namespace = namespace r,
                                      meta_name = ''spgwu'',
                                      labels = [''app.kubernetes.io/name'' \<mapsto> app_name r,
                                                ''app'' \<mapsto> app_name r]\<rparr>,
                       cm_data = d\<rparr>\<rparr>]"
    by auto
  show "length cms = 1" by (simp add: cms)
  show "meta_name (cm_metadata (body (hd cms))) = ''spgwu''" by (simp add: cms)
  show "labels (cm_metadata (body (hd cms))) ''app.kubernetes.io/name'' = Some (app_name r)"
    by (simp add: cms)
  show "labels (cm_metadata (body (hd cms))) ''app'' = Some (app_name r)" by (simp add: cms)
  show "get_config_data w (script_path r) = Inr (cm_data (body (hd cms)))" by (simp add: cms d)
qed (simp_all add: services_def)

theorem desired_state_shape_witness:
  "get_config_data files_world (script_path spgwu_res) = Inr [''setup-af-iface.sh'' \<mapsto> ''ip link'']
   \<and> length (services spgwu_res) = 1"
  using desired_state_shape [of spgwu_res files_world] configmaps_files_world
  by simp

text \<open>
  C6, as stated, fails: with one file in each of the three bundles, \<open>_configmaps\<close> is a
  single ConfigMap, holding the script only.
\<close>

theorem one_configmap_per_bundle_counterexample:
  "glob_files files_world (script_path spgwu_res) = [''src/files/Script/setup-af-iface.sh'']
   \<and> glob_files files_world (configPath spgwu_res) = [''src/files/Config/dp.cfg'']
   \<and> glob_files files_world (runscriptPath spgwu_res) = [''src/files/run.sh'']
   \<and> configmaps spgwu_res files_world =
     Inr [\<lparr>d_namespace = ''omec'',
           body = \<lparr>cm_api_version = ''v1'',
                   cm_metadata = \<lparr>meta_namespace = ''omec'', meta_name = ''spgwu'',
                                  labels = [''app.kubernetes.io/name'' \<mapsto> ''spgwu'',
                                            ''app'' \<mapsto> ''spgwu'']\<rparr>,
                   cm_data = [''setup-af-iface.sh'' \<mapsto> ''ip link'']\<rparr>\<rparr>]"
  by (simp add: configmaps_files_world)
     (simp add: files_world_def bare_world_def charm_files_def spgwu_res_def
        SpgwuResources_init_def)

text \<open>
  C7, amended. The builder does not fail on absent configuration keys or on an empty
  bundle. The configuration has no part in \<open>_services\<close> or \<open>_configmaps\<close>. Whenever
  every file the three globs match is a text, and so whenever a bundle is empty,
  \<open>_configmaps\<close> returns; and with an empty scripts bundle the ConfigMap it returns has
  empty data.
\<close>

theorem builder_validates_nothing:
  "configmaps (r\<lparr>config := cfg\<rparr>) w = configmaps r w
   \<and> services (r\<lparr>config := cfg\<rparr>) = services r
   \<and> ((\<forall>p\<in>set (glob_files w (script_path r)) \<union> set (glob_files w (configPath r))
              \<union> set (glob_files w (runscriptPath r)). \<exists>t. files w p = Some (Text t))
        \<longrightarrow> (\<exists>cms. configmaps r w = Inr cms))
   \<and> (configmaps r w = Inr cms \<and> glob_files w (script_path r) = []
        \<longrightarrow> cm_data (body (hd cms)) = Map.empty)"
proof (intro conjI impI)
  show "configmaps (r\<lparr>config := cfg\<rparr>) w = configmaps r w"
    by (simp add: configmaps_def split: sum.splits)
  show "services (r\<lparr>config := cfg\<rparr>) = services r"
    by (simp add: services_def)
next
  assume "\<forall>p\<in>set (glob_files w (script_path r)) \<union> set (glob_files w (configPath r))
              \<union> set (glob_files w (runscriptPath r)). \<exists>t. files w p = Some (Text t)"
  then show "\<exists>cms. configmaps r w = Inr cms" by (rule configmaps_ok)
next
  assume h: "configmaps r w = Inr cms \<and> glob_files w (script_path r) = []"
  then have "get_config_data w (script_path r) = Inr Map.empty"
    by (simp add: get_config_data_def)
  with h configmaps_Inr [of r w cms] show "cm_data (body (hd cms)) = Map.empty"
    by auto
qed

theorem builder_validates_nothing_witness:
  "\<exists>cms. configmaps spgwu_res files_world = Inr cms"
proof -
  have "\<forall>p\<in>set (glob_files files_world (script_path spgwu_res))
            \<union> set (glob_files files_world (configPath spgwu_res))
            \<union> set (glob_files files_world (runscriptPath spgwu_res)).
          (\<exists>t. files files_world p = Some (Text t))"
    by (simp add: files_world_def bare_world_def charm_files_def spgwu_res_def
        SpgwuResources_init_def)
  with builder_validates_nothing [where r = spgwu_res and w = files_world]
  show ?thesis by blast
qed

text \<open>
  C7, as stated, fails: with an empty configuration and no file at all, \<open>_configmaps\<close>
  returns a ConfigMap descriptor, with empty data, and raises nothing.
\<close>

theorem empty_inputs_counterexample:
  "config spgwu_res = Map.empty
   \<and> glob_files bare_world (script_path spgwu_res) = []
   \<and> configmaps spgwu_res bare_world =
     Inr [\<lparr>d_namespace = ''omec'',
           body = \<lparr>cm_api_version = ''v1'',
                   cm_metadata = \<lparr>meta_namespace = ''omec'', meta_name = ''spgwu'',
                                  labels = [''app.kubernetes.io/name'' \<mapsto> ''spgwu'',
                                            ''app'' \<mapsto> ''spgwu'']\<rparr>,
                   cm_data = Map.empty\<rparr>\<rparr>]"
  by (simp add: configmaps_bare_world)
     (simp add: bare_world_def spgwu_res_def SpgwuResources_init_def)

lemma patched_object_resources:
  "patched_object r s = Inr s' \<Longrightarrow>
   resources (pod_containers s' ! 1) = Some patch_resource_requirements"
  by (auto simp: patched_object_def pod_containers_def set_pod_spec_def Let_def
      split: if_splits option.splits)

lemma add_container_resource_limit_loop_left:
  "\<not> itr < length cs \<Longrightarrow> add_container_resource_limit_loop k itr cs = (True, cs)"
  by (cases k) simp_all

lemma set_resources_twice:
  "i < length xs \<Longrightarrow>
   (xs[i := (xs ! i)\<lparr>resources := v\<rparr>])
     [i := ((xs[i := (xs ! i)\<lparr>resources := v\<rparr>]) ! i)\<lparr>resources := v\<rparr>]
   = xs[i := (xs ! i)\<lparr>resources := v\<rparr>]"
  by simp

lemma add_container_resource_limit_loop_turns:
  "itr < length cs \<Longrightarrow>
   add_container_resource_limit_loop (Suc k) itr cs =
     (False,
      cs[itr := (cs ! itr)
           \<lparr>resources :=
              Some \<lparr>limits = [''cpu'' \<mapsto> ''0.2'', ''memory'' \<mapsto> ''200Mi''],
                    requests = [''cpu'' \<mapsto> ''0.2'', ''memory'' \<mapsto> ''200Mi'']\<rparr>\<rparr>])"
proof (induction k arbitrary: cs)
  case 0
  then show ?case
    by (simp only: add_container_resource_limit_loop.simps length_list_update if_True simp_thms)
next
  case (Suc k)
  let ?cs = "cs[itr := (cs ! itr)
           \<lparr>resources :=
              Some \<lparr>limits = [''cpu'' \<mapsto> ''0.2'', ''memory'' \<mapsto> ''200Mi''],
                    requests = [''cpu'' \<mapsto> ''0.2'', ''memory'' \<mapsto> ''200Mi'']\<rparr>\<rparr>]"
  from Suc.prems have len: "itr < length ?cs"
    by (simp only: length_list_update)
  have "add_container_resource_limit_loop (Suc (Suc k)) itr cs =
      add_container_resource_limit_loop (Suc k) itr ?cs"
    using Suc.prems
    by (simp only: add_container_resource_limit_loop.simps(2) [of "Suc k"] if_True)
  also have "\<dots> = (False, ?cs[itr := (?cs ! itr)
           \<lparr>resources :=
              Some \<lparr>limits = [''cpu'' \<mapsto> ''0.2'', ''memory'' \<mapsto> ''200Mi''],
                    requests = [''cpu'' \<mapsto> ''0.2'', ''memory'' \<mapsto> ''200Mi'']\<rparr>\<rparr>])"
    by (rule Suc.IH [OF len])
  also have "\<dots> = (False, ?cs)"
    by (simp only: set_resources_twice [OF Suc.prems])
  finally show ?case .
qed

text \<open>
  C8. The \<open>V1ResourceRequirements\<close> that \<open>_patch_stateful_set\<close> assigns (cpu 2, memory
  2Gi) has requests equal to limits, and so have the resources of container 1 in any
  object \<open>_patch_stateful_set\<close> sends. After any number of turns of the loop of
  \<open>add_container_resource_limit\<close> on two containers or more (the loop is never left
  then), the resources it has assigned to container 1 have requests equal to limits
  (cpu 0.2, memory 200Mi); on fewer containers the loop is left at once and nothing is
  assigned.
\<close>

theorem requests_equal_limits:
  "requests patch_resource_requirements = limits patch_resource_requirements
   \<and> map (limits patch_resource_requirements) [''cpu'', ''memory''] = [Some ''2'', Some ''2Gi'']
   \<and> (patched_object r s = Inr s' \<longrightarrow>
        (\<exists>rr. resources (pod_containers s' ! 1) = Some rr \<and> requests rr = limits rr
              \<and> requests rr ''cpu'' = limits rr ''cpu''
              \<and> requests rr ''memory'' = limits rr ''memory''))
   \<and> (2 \<le> length cs \<longrightarrow>
        fst (add_container_resource_limit_body (Suc k) cs) = False
      \<and> (\<exists>rr. resources (snd (add_container_resource_limit_body (Suc k) cs) ! 1) = Some rr
              \<and> requests rr = limits rr
              \<and> map (limits rr) [''cpu'', ''memory''] = [Some ''0.2'', Some ''200Mi'']
              \<and> map (requests rr) [''cpu'', ''memory''] = [Some ''0.2'', Some ''200Mi'']))
   \<and> (length cs \<le> 1 \<longrightarrow> add_container_resource_limit_body k cs = (True, cs))"
proof (intro conjI impI)
  assume "patched_object r s = Inr s'"
  from patched_object_resources [OF this]
  show "\<exists>rr. resources (pod_containers s' ! 1) = Some rr \<and> requests rr = limits rr
              \<and> requests rr ''cpu'' = limits rr ''cpu''
              \<and> requests rr ''memory'' = limits rr ''memory''"
    by (simp add: patch_resource_requirements_def)
next
  assume len: "2 \<le> length cs"
  then have one: "1 < length cs" by simp
  note run = add_container_resource_limit_loop_turns [OF one, of k]
  show "fst (add_container_resource_limit_body (Suc k) cs) = False"
    unfolding add_container_resource_limit_body_def run by simp
  show "\<exists>rr. resources (snd (add_container_resource_limit_body (Suc k) cs) ! 1) = Some rr
              \<and> requests rr = limits rr
              \<and> map (limits rr) [''cpu'', ''memory''] = [Some ''0.2'', Some ''200Mi'']
              \<and> map (requests rr) [''cpu'', ''memory''] = [Some ''0.2'', Some ''200Mi'']"
    unfolding add_container_resource_limit_body_def run using one by simp
next
  assume "length cs \<le> 1"
  then show "add_container_resource_limit_body k cs = (True, cs)"
    by (simp add: add_container_resource_limit_body_def add_container_resource_limit_loop_left)
qed (simp_all add: patch_resource_requirements_def)

theorem requests_equal_limits_witness:
  "(\<exists>s' rr. patched_object sample_resources two_containers = Inr s'
     \<and> resources (pod_containers s' ! 1) = Some rr \<and> requests rr = limits rr)
   \<and> fst (add_container_resource_limit_body 3 (pod_containers two_containers)) = False
   \<and> (\<exists>rr. resources (snd (add_container_resource_limit_body 3 (pod_containers two_containers)) ! 1)
            = Some rr \<and> requests rr = limits rr)
   \<and> add_container_resource_limit_body 3 (pod_containers one_container)
      = (True, pod_containers one_container)"
proof -
  have h2: "2 \<le> length (pod_containers two_containers)"
    by (simp add: two_containers_def stateful_set_of_def pod_containers_def)
  have h3: "env (pod_containers two_containers ! 1) = Some []"
    by (simp add: two_containers_def stateful_set_of_def pod_containers_def plain_container_def)
  have h4: "init_containers (tmpl_spec (template (sts_spec two_containers))) = Some []"
    by (simp add: two_containers_def stateful_set_of_def)
  have h1: "length (pod_containers one_container) \<le> 1"
    by (simp add: one_container_def stateful_set_of_def pod_containers_def)
  have three: "(3::nat) = Suc 2" by simp
  from patched_object_ok [OF h2 h3 h4, of sample_resources]
  obtain s' where s': "patched_object sample_resources two_containers = Inr s'"
    by simp
  from requests_equal_limits [of sample_resources two_containers s' "pod_containers two_containers" 2]
    requests_equal_limits [of sample_resources two_containers s' "pod_containers one_container" 3]
    s' h2 h1
  show ?thesis unfolding three by auto
qed

end
